theory Spec2Isabelle
  imports Complex_Main "HOL-Library.Multiset"
begin

section \<open>Overview\<close>

text \<open>
  A model of the server of the shared grocery list: the week resolution, the handlers
  \<^verbatim>\<open>addGroceryItem\<close>, \<^verbatim>\<open>toggleItemCompletion\<close>, \<^verbatim>\<open>removeGroceryItem\<close> and
  \<^verbatim>\<open>getCurrentWeekList\<close>, and the input schema of the procedure that adds an item.
  A handler is a function of the server's time zone, the clock reading, its input and the
  store; it returns what its promise settles to (\<open>Inl\<close> an error, \<open>Inr\<close> a value) and
  the store after the call. Calls run one after the other. The definitions come first, the
  properties after them.
\<close>

section \<open>Dates\<close>

text \<open>
  A JavaScript \<^verbatim>\<open>Date\<close> is an instant: the milliseconds since 1970-01-01T00:00:00Z.
  The getters and setters that the handlers use (\<^verbatim>\<open>getDay\<close>, \<^verbatim>\<open>getDate\<close>,
  \<^verbatim>\<open>setDate\<close>, \<^verbatim>\<open>setHours\<close>) read and write the local calendar of the server;
  \<^verbatim>\<open>toISOString\<close> prints the UTC calendar. The zone of the server is a parameter of the
  model. As in the language standard it is given by two offsets in milliseconds:
  \<open>utc_offset\<close> at an instant (\<^verbatim>\<open>LocalTZA(t, true)\<close>), and \<open>local_offset\<close> at a local
  time value (\<^verbatim>\<open>LocalTZA(t, false)\<close>), which settles how a local time that the clocks skip
  or show twice is read. A value of a \<^verbatim>\<open>date\<close> column, and the \<^verbatim>\<open>YYYY-MM-DD\<close> text that
  \<^verbatim>\<open>toISOString().split('T')[0]\<close> yields, is the number of the day since 1970-01-01: the
  two are ordered alike, and the store compares them as dates.
\<close>

type_synonym date_time = int
type_synonym date = int

record zone =
  utc_offset :: "date_time \<Rightarrow> int"
  local_offset :: "date_time \<Rightarrow> int"

definition msPerDay :: int where
  "msPerDay = 86400000"

text \<open>\<^verbatim>\<open>LocalTime(t)\<close> and \<^verbatim>\<open>UTC(t)\<close> of the language standard.\<close>

definition LocalTime :: "zone \<Rightarrow> date_time \<Rightarrow> date_time" where
  "LocalTime z t = t + utc_offset z t"

definition UTC :: "zone \<Rightarrow> date_time \<Rightarrow> date_time" where
  "UTC z t = t - local_offset z t"

text \<open>\<^verbatim>\<open>d.getDay()\<close>: the local weekday, 0 is Sunday, 1 is Monday; day 0 (1970-01-01) was a
  Thursday.\<close>

definition getDay :: "zone \<Rightarrow> date_time \<Rightarrow> int" where
  "getDay z t = (LocalTime z t div msPerDay + 4) mod 7"

text \<open>\<^verbatim>\<open>d.setDate(d.getDate() + k)\<close>: the same local time of day, \<open>k\<close> calendar days later.\<close>

definition setDate_plus :: "zone \<Rightarrow> date_time \<Rightarrow> int \<Rightarrow> date_time" where
  "setDate_plus z t k = UTC z (LocalTime z t + k * msPerDay)"

text \<open>\<^verbatim>\<open>d.setHours(h, m, s, ms)\<close>: the same local calendar day, at the given local time.\<close>

definition setHours :: "zone \<Rightarrow> date_time \<Rightarrow> int \<Rightarrow> int \<Rightarrow> int \<Rightarrow> int \<Rightarrow> date_time" where
  "setHours z t h m s ms =
     UTC z ((LocalTime z t div msPerDay) * msPerDay + ((h * 60 + m) * 60 + s) * 1000 + ms)"

text \<open>\<^verbatim>\<open>d.toISOString().split('T')[0]\<close>: the UTC calendar date of the instant.\<close>

definition toISODate :: "date_time \<Rightarrow> date" where
  "toISODate t = t div msPerDay"

text \<open>The local calendar date of an instant.\<close>

definition localDate :: "zone \<Rightarrow> date_time \<Rightarrow> date" where
  "localDate z t = LocalTime z t div msPerDay"

text \<open>The weekday of a calendar date, with the numbering of \<^verbatim>\<open>getDay\<close>.\<close>

definition weekday :: "date \<Rightarrow> int" where
  "weekday d = (d + 4) mod 7"

text \<open>A zone whose offset never changes; \<open>utc\<close> is the one with no offset.\<close>

definition fixed_zone :: "int \<Rightarrow> zone" where
  "fixed_zone c = \<lparr>utc_offset = (\<lambda>t. c), local_offset = (\<lambda>t. c)\<rparr>"

definition utc :: zone where
  "utc = fixed_zone 0"


subsection \<open>Week resolution\<close>

text \<open>\<^verbatim>\<open>getCurrentWeekStart\<close> of \<^verbatim>\<open>handlers/add_grocery_item.ts\<close>; \<open>now\<close> is
  what \<^verbatim>\<open>new Date()\<close> returned.\<close>

definition getCurrentWeekStart :: "zone \<Rightarrow> date_time \<Rightarrow> date_time" where
  "getCurrentWeekStart z now =
     (let dayOfWeek = getDay z now;
          mondayOffset = (if dayOfWeek = 0 then - 6 else 1 - dayOfWeek);
          monday = setDate_plus z now mondayOffset
      in setHours z monday 0 0 0 0)"

text \<open>The same computation as \<^verbatim>\<open>getCurrentWeekList\<close> writes it at its head.\<close>

definition currentWeekStart :: "zone \<Rightarrow> date_time \<Rightarrow> date_time" where
  "currentWeekStart z now =
     (let dayOfWeek = getDay z now;
          daysToMonday = (if dayOfWeek = 0 then 6 else dayOfWeek - 1)
      in setHours z (setDate_plus z now (- daysToMonday)) 0 0 0 0)"

definition currentWeekEnd :: "zone \<Rightarrow> date_time \<Rightarrow> date_time" where
  "currentWeekEnd z now = setHours z (setDate_plus z (currentWeekStart z now) 6) 23 59 59 999"

section \<open>The store\<close>

text \<open>
  The five tables of \<^verbatim>\<open>db/schema.ts\<close>. A table is the list of its rows in store order;
  a \<^verbatim>\<open>serial\<close> key is drawn from the table's sequence, kept in the state. A nullable
  column is an \<open>option\<close>. Timestamps are instants, \<^verbatim>\<open>week_start\<close> is a calendar date.
\<close>

record user =
  usr_id :: int
  usr_name :: string
  usr_email :: string
  usr_created_at :: date_time

record couple =
  cpl_id :: int
  user1_id :: int
  user2_id :: int
  cpl_created_at :: date_time

record category =
  cat_id :: int
  cat_name :: string
  cat_created_at :: date_time

record grocery_list =
  lst_id :: int
  couple_id :: int
  week_start :: date
  lst_created_at :: date_time

record grocery_item =
  item_id :: int
  list_id :: int
  category_id :: int
  name :: string
  quantity :: "string option"
  is_completed :: bool
  added_by_user_id :: int
  completed_by_user_id :: "int option"
  created_at :: date_time
  completed_at :: "date_time option"

text \<open>\<^verbatim>\<open>GroceryItemWithCategory = GroceryItem & { category: Category }\<close>.\<close>

record grocery_item_with_category = grocery_item +
  category :: category

record db =
  usersTable :: "user list"
  couplesTable :: "couple list"
  categoriesTable :: "category list"
  groceryListsTable :: "grocery_list list"
  groceryItemsTable :: "grocery_item list"
  grocery_lists_id_seq :: int
  grocery_items_id_seq :: int

subsection \<open>Numbers that arrive as ids\<close>

text \<open>
  An id in an input is a JavaScript number: the schemas say \<^verbatim>\<open>z.number()\<close> and no more.
  The model takes the finite numbers, as rationals. The id columns are \<^verbatim>\<open>integer\<close> and
  \<^verbatim>\<open>serial\<close>, of 32 bits. When a query compares such a column with a number, or writes
  the number into it, the store first reads the number as a value of the column; a number
  that is not integral or not within the 32 bits makes the statement fail with a data
  exception, which the handler rethrows. \<open>int4_of\<close> is that reading. \<open>is_id x k\<close> says it
  without the store: the number \<open>x\<close> is the integer \<open>k\<close>, and \<open>k\<close> is a value of the
  column.
\<close>

type_synonym number = rat

definition int4_of :: "number \<Rightarrow> int option" where
  "int4_of x =
     (if of_int \<lfloor>x\<rfloor> = x \<and> - 2147483648 \<le> \<lfloor>x\<rfloor> \<and> \<lfloor>x\<rfloor> \<le> 2147483647
      then Some \<lfloor>x\<rfloor> else None)"

definition is_id :: "number \<Rightarrow> int \<Rightarrow> bool" where
  "is_id x k \<longleftrightarrow> x = of_int k \<and> - 2147483648 \<le> k \<and> k \<le> 2147483647"

section \<open>Errors\<close>

text \<open>
  Every handler throws \<^verbatim>\<open>new Error(message)\<close>, or rethrows what the store threw;
  the procedure layer throws what the validation threw. A constructor stands for each throw
  site; \<open>message\<close> is the text the source builds, which the tests match. For the errors
  of the libraries it keeps only what they name: the constraint, the type, the path.
\<close>

datatype error =
    UserDoesNotExist int
  | CategoryDoesNotExist int
  | GroceryListDoesNotExist int
  | NotPartOfAnyCouple int
  | GroceryItemNotFound int
  | ForeignKeyViolation string
  | DataException number
  | ZodError string






text \<open>The taxonomy of the specification (section 7): which kind each thrown error is.\<close>

datatype error_kind = NotFound | InvalidState | StorageError | ValidationError

fun kind :: "error \<Rightarrow> error_kind" where
  "kind (UserDoesNotExist i) = NotFound"
| "kind (CategoryDoesNotExist i) = NotFound"
| "kind (GroceryListDoesNotExist i) = NotFound"
| "kind (GroceryItemNotFound i) = NotFound"
| "kind (NotPartOfAnyCouple i) = InvalidState"
| "kind (ForeignKeyViolation c) = StorageError"
| "kind (DataException x) = StorageError"
| "kind (ZodError path) = ValidationError"

section \<open>Adding an item\<close>

text \<open>
  \<^verbatim>\<open>AddGroceryItemInput\<close> as the handler reads it. The tests call the handler with
  \<^verbatim>\<open>list_id\<close> deleted, so the field is an \<open>option\<close> (\<open>None\<close> is \<^verbatim>\<open>undefined\<close>);
  \<open>None\<close> for the quantity is \<^verbatim>\<open>null\<close> or \<^verbatim>\<open>undefined\<close>.
\<close>

record add_grocery_item_input =
  in_list_id :: "number option"
  in_category_id :: number
  in_name :: string
  in_quantity :: "string option"
  in_added_by_user_id :: number

text \<open>The guard \<^verbatim>\<open>if (input.list_id)\<close>: \<^verbatim>\<open>undefined\<close> and \<^verbatim>\<open>0\<close> are falsy.\<close>

fun provided :: "number option \<Rightarrow> number option" where
  "provided None = None"
| "provided (Some n) = (if n = 0 then None else Some n)"

text \<open>\<^verbatim>\<open>input.quantity || null\<close>: the empty string is falsy too.\<close>

fun or_null :: "string option \<Rightarrow> string option" where
  "or_null None = None"
| "or_null (Some q) = (if q = [] then None else Some q)"

text \<open>
  The two inserts. The store assigns the key from the sequence and the creation time from
  its clock. Both inserts come after the handler has looked up every row they refer to, so
  the foreign keys of the new row hold; the key is new as long as the sequence is ahead of
  the keys in the table (\<open>keys_ok\<close> below).
\<close>

definition insert_grocery_list :: "date_time \<Rightarrow> int \<Rightarrow> date \<Rightarrow> db \<Rightarrow> grocery_list \<times> db" where
  "insert_grocery_list now coupleId weekStart s =
     (let row = \<lparr>lst_id = grocery_lists_id_seq s, couple_id = coupleId,
                 week_start = weekStart, lst_created_at = now\<rparr>
      in (row, s\<lparr>groceryListsTable := groceryListsTable s @ [row],
                 grocery_lists_id_seq := grocery_lists_id_seq s + 1\<rparr>))"

text \<open>The columns that the handler gives a new item; the store fills in the others.\<close>

record new_grocery_item =
  new_list_id :: int
  new_category_id :: int
  new_name :: string
  new_quantity :: "string option"
  new_added_by_user_id :: int

definition insert_grocery_item :: "date_time \<Rightarrow> new_grocery_item \<Rightarrow> db \<Rightarrow> grocery_item \<times> db" where
  "insert_grocery_item now v s =
     (let row = \<lparr>item_id = grocery_items_id_seq s,
                 list_id = new_list_id v,
                 category_id = new_category_id v,
                 name = new_name v,
                 quantity = new_quantity v,
                 is_completed = False,
                 added_by_user_id = new_added_by_user_id v,
                 completed_by_user_id = None,
                 created_at = now,
                 completed_at = None\<rparr>
      in (row, s\<lparr>groceryItemsTable := groceryItemsTable s @ [row],
                 grocery_items_id_seq := grocery_items_id_seq s + 1\<rparr>))"

text \<open>The couples of a user: the \<^verbatim>\<open>user1_id\<close> matches, then the \<^verbatim>\<open>user2_id\<close> matches.\<close>

definition allUserCouples :: "db \<Rightarrow> int \<Rightarrow> couple list" where
  "allUserCouples s uid =
     (let userCouples = filter (\<lambda>c. user1_id c = uid) (couplesTable s);
          userCouples2 = filter (\<lambda>c. user2_id c = uid) (couplesTable s)
      in userCouples @ userCouples2)"

text \<open>The lists of a couple for a week start.\<close>

definition groceryList :: "db \<Rightarrow> int \<Rightarrow> date \<Rightarrow> grocery_list list" where
  "groceryList s coupleId weekStart =
     filter (\<lambda>l. couple_id l = coupleId \<and> week_start l = weekStart) (groceryListsTable s)"

text \<open>The \<^verbatim>\<open>values\<close> of the insert of the item, with the ids as the store has read them.\<close>

definition item_values :: "add_grocery_item_input \<Rightarrow> int \<Rightarrow> int \<Rightarrow> int \<Rightarrow> new_grocery_item" where
  "item_values input listId categoryId userId =
     \<lparr>new_list_id = listId,
      new_category_id = categoryId,
      new_name = in_name input,
      new_quantity = or_null (in_quantity input),
      new_added_by_user_id = userId\<rparr>"

text \<open>
  \<^verbatim>\<open>addGroceryItem\<close>. The result is what the promise settles to, with the store after
  the call. \<open>z\<close> is the zone of the server, \<open>now\<close> the clock of the call. Each query hands
  its number to the store, which may reject it. With a list reference the source also reads
  the couple of that list, and uses it nowhere.
\<close>

definition addGroceryItem ::
    "zone \<Rightarrow> date_time \<Rightarrow> add_grocery_item_input \<Rightarrow> db \<Rightarrow> (error + grocery_item) \<times> db" where
  "addGroceryItem z now input s =
     (case int4_of (in_added_by_user_id input) of
        None \<Rightarrow> (Inl (DataException (in_added_by_user_id input)), s)
      | Some userId \<Rightarrow>
     if filter (\<lambda>u. usr_id u = userId) (usersTable s) = [] then
       (Inl (UserDoesNotExist userId), s)
     else
     (case int4_of (in_category_id input) of
        None \<Rightarrow> (Inl (DataException (in_category_id input)), s)
      | Some categoryId \<Rightarrow>
     if filter (\<lambda>c. cat_id c = categoryId) (categoriesTable s) = [] then
       (Inl (CategoryDoesNotExist categoryId), s)
     else
     (case provided (in_list_id input) of
        Some list_ref \<Rightarrow>
          (case int4_of list_ref of
             None \<Rightarrow> (Inl (DataException list_ref), s)
           | Some listId \<Rightarrow>
               if filter (\<lambda>l. lst_id l = listId) (groceryListsTable s) = [] then
                 (Inl (GroceryListDoesNotExist listId), s)
               else
                 (case insert_grocery_item now (item_values input listId categoryId userId) s of
                    (row, s') \<Rightarrow> (Inr row, s')))
      | None \<Rightarrow>
          (case allUserCouples s userId of
             [] \<Rightarrow> (Inl (NotPartOfAnyCouple userId), s)
           | c # _ \<Rightarrow>
               (let coupleId = cpl_id c;
                    weekStart = getCurrentWeekStart z now
                in case groceryList s coupleId (toISODate weekStart) of
                     [] \<Rightarrow>
                       (case insert_grocery_list now coupleId (toISODate weekStart) s of
                          (newList, s1) \<Rightarrow>
                            (case insert_grocery_item now
                                    (item_values input (lst_id newList) categoryId userId) s1 of
                               (row, s') \<Rightarrow> (Inr row, s')))
                   | l # _ \<Rightarrow>
                       (case insert_grocery_item now
                               (item_values input (lst_id l) categoryId userId) s of
                          (row, s') \<Rightarrow> (Inr row, s')))))))"

section \<open>Toggling completion\<close>

text \<open>
  \<^verbatim>\<open>toggleItemCompletion\<close>. The update sets the three completion columns of every row
  with the id; the row returned is the image of the row read first. On the way to complete
  it writes the number of the acting user into \<^verbatim>\<open>completed_by_user_id\<close>, a column
  declared \<^verbatim>\<open>references(() => usersTable.id)\<close>: the store rejects a number that is no
  value of the column, and a value that is no user's id, and the handler rethrows. On the
  way to incomplete it writes null, and the number of the acting user goes nowhere.
  The model leaves an updated row at its place in the table; the store does not promise
  where a later scan yields it, and what is shown below of the rows that a query returns is
  shown of them as a set and as a multiset.
\<close>

definition set_completion ::
    "bool \<Rightarrow> int option \<Rightarrow> date_time option \<Rightarrow> grocery_item \<Rightarrow> grocery_item" where
  "set_completion flag who stamp i =
     i\<lparr>is_completed := flag, completed_by_user_id := who, completed_at := stamp\<rparr>"

text \<open>What the store makes of the value for \<^verbatim>\<open>completed_by_user_id\<close>.\<close>

fun completed_by_column :: "db \<Rightarrow> number option \<Rightarrow> error + int option" where
  "completed_by_column s None = Inr None"
| "completed_by_column s (Some n) =
     (case int4_of n of
        None \<Rightarrow> Inl (DataException n)
      | Some userId \<Rightarrow>
          if filter (\<lambda>u. usr_id u = userId) (usersTable s) = [] then
            Inl (ForeignKeyViolation ''grocery_items_completed_by_user_id_users_id_fk'')
          else Inr (Some userId))"

definition toggleItemCompletion ::
    "date_time \<Rightarrow> number \<Rightarrow> number \<Rightarrow> db \<Rightarrow> (error + grocery_item) \<times> db" where
  "toggleItemCompletion now item_ref user_ref s =
     (case int4_of item_ref of
        None \<Rightarrow> (Inl (DataException item_ref), s)
      | Some itemId \<Rightarrow>
     (case filter (\<lambda>i. item_id i = itemId) (groceryItemsTable s) of
        [] \<Rightarrow> (Inl (GroceryItemNotFound itemId), s)
      | currentItem # _ \<Rightarrow>
          (let isCurrentlyCompleted = is_completed currentItem;
               completedBy = (if \<not> isCurrentlyCompleted then Some user_ref else None);
               completedAt = (if \<not> isCurrentlyCompleted then Some now else None)
           in case completed_by_column s completedBy of
                Inl e \<Rightarrow> (Inl e, s)
              | Inr who \<Rightarrow>
                  (Inr (set_completion (\<not> isCurrentlyCompleted) who completedAt currentItem),
                   s\<lparr>groceryItemsTable :=
                       map (\<lambda>i. if item_id i = itemId
                                 then set_completion (\<not> isCurrentlyCompleted) who completedAt i
                                 else i)
                         (groceryItemsTable s)\<rparr>))))"

section \<open>Removing an item\<close>

record remove_result =
  success :: bool

definition removeGroceryItem :: "number \<Rightarrow> db \<Rightarrow> (error + remove_result) \<times> db" where
  "removeGroceryItem item_ref s =
     (case int4_of item_ref of
        None \<Rightarrow> (Inl (DataException item_ref), s)
      | Some itemId \<Rightarrow>
          (let rowCount = length (filter (\<lambda>i. item_id i = itemId) (groceryItemsTable s))
           in (Inr \<lparr>success = (rowCount > 0)\<rparr>,
               s\<lparr>groceryItemsTable :=
                   filter (\<lambda>i. item_id i \<noteq> itemId) (groceryItemsTable s)\<rparr>)))"

section \<open>The items of the current week\<close>

text \<open>\<^verbatim>\<open>getCurrentWeekList\<close>: the inner joins, the filter and the transformation.\<close>

definition getCurrentWeekList ::
    "zone \<Rightarrow> date_time \<Rightarrow> number \<Rightarrow> db \<Rightarrow> error + grocery_item_with_category list" where
  "getCurrentWeekList z now couple_ref s =
     (let weekStartStr = toISODate (currentWeekStart z now);
          weekEndStr = toISODate (currentWeekEnd z now)
      in case int4_of couple_ref of
           None \<Rightarrow> Inl (DataException couple_ref)
         | Some coupleId \<Rightarrow>
             (let results =
                    [(i, l, c).
                       i \<leftarrow> groceryItemsTable s,
                       l \<leftarrow> groceryListsTable s, list_id i = lst_id l,
                       c \<leftarrow> categoriesTable s, category_id i = cat_id c,
                       couple_id l = coupleId \<and> weekStartStr \<le> week_start l
                         \<and> week_start l \<le> weekEndStr]
              in Inr (map (\<lambda>(i, l, c).
                        \<lparr>item_id = item_id i,
                         list_id = list_id i,
                         category_id = category_id i,
                         name = name i,
                         quantity = quantity i,
                         is_completed = is_completed i,
                         added_by_user_id = added_by_user_id i,
                         completed_by_user_id = completed_by_user_id i,
                         created_at = created_at i,
                         completed_at = completed_at i,
                         category = \<lparr>cat_id = cat_id c, cat_name = cat_name c,
                                     cat_created_at = cat_created_at c\<rparr>\<rparr>) results)))"

section \<open>The procedure and its input schema\<close>

text \<open>
  What arrives at the procedure \<^verbatim>\<open>addGroceryItem\<close> of the router is a JSON object; a key
  that is absent is \<open>None\<close>. \<^verbatim>\<open>addGroceryItemInputSchema\<close> is a \<^verbatim>\<open>z.object\<close> of five
  fields; it fails when one of them does.
\<close>

datatype json = JNull | JBoolean bool | JNumber number | JString string

record add_grocery_item_payload =
  p_list_id :: "json option"
  p_category_id :: "json option"
  p_name :: "json option"
  p_quantity :: "json option"
  p_added_by_user_id :: "json option"

text \<open>\<^verbatim>\<open>z.number()\<close>\<close>

fun z_number :: "string \<Rightarrow> json option \<Rightarrow> error + number" where
  "z_number path (Some (JNumber n)) = Inr n"
| "z_number path _ = Inl (ZodError path)"

text \<open>\<^verbatim>\<open>z.string().min(1)\<close>\<close>

fun z_string_min1 :: "string \<Rightarrow> json option \<Rightarrow> error + string" where
  "z_string_min1 path (Some (JString v)) = (if 1 \<le> length v then Inr v else Inl (ZodError path))"
| "z_string_min1 path _ = Inl (ZodError path)"

text \<open>\<^verbatim>\<open>z.string().nullable().optional()\<close>\<close>

fun z_string_nullable_optional :: "string \<Rightarrow> json option \<Rightarrow> error + string option" where
  "z_string_nullable_optional path None = Inr None"
| "z_string_nullable_optional path (Some JNull) = Inr None"
| "z_string_nullable_optional path (Some (JString v)) = Inr (Some v)"
| "z_string_nullable_optional path _ = Inl (ZodError path)"

definition addGroceryItemInputSchema ::
    "add_grocery_item_payload \<Rightarrow> error + add_grocery_item_input" where
  "addGroceryItemInputSchema p =
     (case z_number ''list_id'' (p_list_id p) of
        Inl e \<Rightarrow> Inl e
      | Inr listId \<Rightarrow>
     (case z_number ''category_id'' (p_category_id p) of
        Inl e \<Rightarrow> Inl e
      | Inr categoryId \<Rightarrow>
     (case z_string_min1 ''name'' (p_name p) of
        Inl e \<Rightarrow> Inl e
      | Inr nm \<Rightarrow>
     (case z_string_nullable_optional ''quantity'' (p_quantity p) of
        Inl e \<Rightarrow> Inl e
      | Inr qty \<Rightarrow>
     (case z_number ''added_by_user_id'' (p_added_by_user_id p) of
        Inl e \<Rightarrow> Inl e
      | Inr userId \<Rightarrow>
          Inr \<lparr>in_list_id = Some listId, in_category_id = categoryId, in_name = nm,
               in_quantity = qty, in_added_by_user_id = userId\<rparr>)))))"

text \<open>\<^verbatim>\<open>publicProcedure.input(addGroceryItemInputSchema).mutation(({ input }) => addGroceryItem(input))\<close>\<close>

definition addGroceryItem_procedure ::
    "zone \<Rightarrow> date_time \<Rightarrow> add_grocery_item_payload \<Rightarrow> db \<Rightarrow> (error + grocery_item) \<times> db" where
  "addGroceryItem_procedure z now p s =
     (case addGroceryItemInputSchema p of
        Inl e \<Rightarrow> (Inl e, s)
      | Inr input \<Rightarrow> addGroceryItem z now input s)"

section \<open>Reachable stores\<close>

text \<open>
  The stores that the three item operations produce, one call after the other, from a store
  with no item. A call that fails is a step as well.
\<close>

inductive reachable :: "db \<Rightarrow> bool" where
  no_items: "groceryItemsTable s = [] \<Longrightarrow> reachable s"
| add: "reachable s \<Longrightarrow> reachable (snd (addGroceryItem z now input s))"
| toggle: "reachable s \<Longrightarrow> reachable (snd (toggleItemCompletion now itemId userId s))"
| remove: "reachable s \<Longrightarrow> reachable (snd (removeGroceryItem itemId s))"

section \<open>Keys\<close>

text \<open>
  The ids of lists, of categories and of items are \<^verbatim>\<open>serial\<close> primary keys, and no
  operation writes one itself: in the stores of this application no two rows of a table
  share an id, and the sequence of a table is ahead of every id in it. The operations keep
  that, as shown further down, so the key an insert draws is new.
\<close>

definition keys_ok :: "db \<Rightarrow> bool" where
  "keys_ok s \<longleftrightarrow>
     distinct (map lst_id (groceryListsTable s))
     \<and> distinct (map cat_id (categoriesTable s))
     \<and> distinct (map item_id (groceryItemsTable s))
     \<and> (\<forall>l \<in> set (groceryListsTable s). lst_id l < grocery_lists_id_seq s)
     \<and> (\<forall>i \<in> set (groceryItemsTable s). item_id i < grocery_items_id_seq s)"

section \<open>Example zones and stores\<close>

text \<open>
  The clocks of London in the autumn of 2023: an hour ahead of UTC until
  2023-10-29T01:00:00Z, on UTC from then on. A local time of the hour that the clocks show
  twice is read as the earlier instant.
\<close>

definition europe_london :: zone where
  "europe_london =
     \<lparr>utc_offset = (\<lambda>t. if t < 1698541200000 then 3600000 else 0),
      local_offset = (\<lambda>t. if t < 1698541200000 + 3600000 then 3600000 else 0)\<rparr>"

text \<open>A server eight hours behind UTC, as the west coast of America is in winter.\<close>

definition pacific :: zone where
  "pacific = fixed_zone (- 28800000)"

text \<open>
  The fixture of the handler's tests: three users, the first two a couple, one category,
  no list and no item yet. The clock reads Wednesday 2024-01-03, 12:00:00.000Z; the Monday
  of that week, 2024-01-01, is day 19723.
\<close>

definition wednesday_noon :: date_time where
  "wednesday_noon = 1704283200000"

definition household :: db where
  "household =
     \<lparr>usersTable =
        [\<lparr>usr_id = 1, usr_name = ''Test User'', usr_email = ''test@example.com'',
          usr_created_at = 0\<rparr>,
         \<lparr>usr_id = 2, usr_name = ''Test User 2'', usr_email = ''test2@example.com'',
          usr_created_at = 0\<rparr>,
         \<lparr>usr_id = 3, usr_name = ''Lone User'', usr_email = ''lone@example.com'',
          usr_created_at = 0\<rparr>],
      couplesTable = [\<lparr>cpl_id = 1, user1_id = 1, user2_id = 2, cpl_created_at = 0\<rparr>],
      categoriesTable = [\<lparr>cat_id = 1, cat_name = ''Produce'', cat_created_at = 0\<rparr>],
      groceryListsTable = [],
      groceryItemsTable = [],
      grocery_lists_id_seq = 1,
      grocery_items_id_seq = 1\<rparr>"

definition bananas :: add_grocery_item_input where
  "bananas =
     \<lparr>in_list_id = None, in_category_id = 1, in_name = ''Bananas'',
      in_quantity = Some ''2 bunches'', in_added_by_user_id = 1\<rparr>"

text \<open>The store after user 1 has added the bananas: list 1 for the week, item 1 in it.\<close>

definition bananas_row :: grocery_item where
  "bananas_row =
     \<lparr>item_id = 1, list_id = 1, category_id = 1, name = ''Bananas'',
      quantity = Some ''2 bunches'', is_completed = False, added_by_user_id = 1,
      completed_by_user_id = None, created_at = wednesday_noon, completed_at = None\<rparr>"

definition with_bananas :: db where
  "with_bananas =
     household
       \<lparr>groceryListsTable :=
          [\<lparr>lst_id = 1, couple_id = 1, week_start = 19723, lst_created_at = wednesday_noon\<rparr>],
        groceryItemsTable := [bananas_row],
        grocery_lists_id_seq := 2,
        grocery_items_id_seq := 2\<rparr>"

text \<open>The store after user 2 has ticked the bananas off, one second later.\<close>

definition bananas_done_row :: grocery_item where
  "bananas_done_row =
     bananas_row\<lparr>is_completed := True, completed_by_user_id := Some 2,
                 completed_at := Some (wednesday_noon + 1000)\<rparr>"

definition bananas_done :: db where
  "bananas_done = with_bananas\<lparr>groceryItemsTable := [bananas_done_row]\<rparr>"

text \<open>
  A user in two couples: user 5 is \<open>user2\<close> of couple 1, which the store lists first,
  and \<open>user1\<close> of couple 2. The store after user 5 has added oranges: the list made is
  couple 2's.
\<close>

definition shared_user :: db where
  "shared_user =
     \<lparr>usersTable =
        [\<lparr>usr_id = 5, usr_name = ''Ada'', usr_email = ''ada@example.com'', usr_created_at = 0\<rparr>,
         \<lparr>usr_id = 6, usr_name = ''Ben'', usr_email = ''ben@example.com'', usr_created_at = 0\<rparr>,
         \<lparr>usr_id = 7, usr_name = ''Cy'', usr_email = ''cy@example.com'', usr_created_at = 0\<rparr>],
      couplesTable =
        [\<lparr>cpl_id = 1, user1_id = 6, user2_id = 5, cpl_created_at = 0\<rparr>,
         \<lparr>cpl_id = 2, user1_id = 5, user2_id = 7, cpl_created_at = 0\<rparr>],
      categoriesTable = [\<lparr>cat_id = 1, cat_name = ''Produce'', cat_created_at = 0\<rparr>],
      groceryListsTable = [],
      groceryItemsTable = [],
      grocery_lists_id_seq = 1,
      grocery_items_id_seq = 1\<rparr>"




text \<open>
  The same two couples a week on: couple 2 has its list of the week before (list 1, dated
  Monday 2023-12-25, day 19716), couple 1 has its list of this week (list 2), and couple 2
  has none for this week yet.
\<close>

definition shared_user_lists :: db where
  "shared_user_lists =
     shared_user
       \<lparr>groceryListsTable :=
          [\<lparr>lst_id = 1, couple_id = 2, week_start = 19716, lst_created_at = 0\<rparr>,
           \<lparr>lst_id = 2, couple_id = 1, week_start = 19723, lst_created_at = 0\<rparr>],
        grocery_lists_id_seq := 3\<rparr>"



text \<open>
  A store at the turn of the year. Users 1 and 2 are couple 1; user 1 is also \<open>user2\<close> of
  couple 2, with user 4. Couple 1 has its list of the week before (list 1, day 19716) and
  none for this week; couple 2 has its list of this week (list 2).
\<close>

definition new_year :: db where
  "new_year =
     \<lparr>usersTable =
        [\<lparr>usr_id = 1, usr_name = ''Test User'', usr_email = ''test@example.com'',
          usr_created_at = 0\<rparr>,
         \<lparr>usr_id = 2, usr_name = ''Test User 2'', usr_email = ''test2@example.com'',
          usr_created_at = 0\<rparr>,
         \<lparr>usr_id = 4, usr_name = ''Test User 4'', usr_email = ''test4@example.com'',
          usr_created_at = 0\<rparr>],
      couplesTable =
        [\<lparr>cpl_id = 1, user1_id = 1, user2_id = 2, cpl_created_at = 0\<rparr>,
         \<lparr>cpl_id = 2, user1_id = 4, user2_id = 1, cpl_created_at = 0\<rparr>],
      categoriesTable = [\<lparr>cat_id = 1, cat_name = ''Produce'', cat_created_at = 0\<rparr>],
      groceryListsTable =
        [\<lparr>lst_id = 1, couple_id = 1, week_start = 19716, lst_created_at = 0\<rparr>,
         \<lparr>lst_id = 2, couple_id = 2, week_start = 19723, lst_created_at = 0\<rparr>],
      groceryItemsTable = [],
      grocery_lists_id_seq = 3,
      grocery_items_id_seq = 1\<rparr>"

text \<open>The bananas as a payload of the procedure, with the key \<^verbatim>\<open>list_id\<close> absent.\<close>

definition bananas_payload :: add_grocery_item_payload where
  "bananas_payload =
     \<lparr>p_list_id = None, p_category_id = Some (JNumber 1), p_name = Some (JString ''Bananas''),
      p_quantity = Some (JString ''2 bunches''), p_added_by_user_id = Some (JNumber 1)\<rparr>"

section \<open>The items of the current week, in the words of the specification\<close>

text \<open>
  The specification (sections 4.1 and 4.5) describes the result of the query without the
  join: the items whose owning list belongs to the couple and has its week start within
  the current week, Monday through Sunday, each with its category record. The Monday of
  the week of a day lies 6 days before a Sunday and (weekday index - 1) days before any
  other day; today is the calendar date of the server. The definitions below say that;
  \<open>currentWeekItems_spec\<close> is compared with \<open>getCurrentWeekList\<close> further down.
\<close>

definition owningList :: "db \<Rightarrow> grocery_item \<Rightarrow> grocery_list option" where
  "owningList s i = find (\<lambda>l. lst_id l = list_id i) (groceryListsTable s)"

definition categoryOf :: "db \<Rightarrow> grocery_item \<Rightarrow> category option" where
  "categoryOf s i = find (\<lambda>c. cat_id c = category_id i) (categoriesTable s)"

definition mondayOfWeek :: "date \<Rightarrow> date" where
  "mondayOfWeek today = today - (if weekday today = 0 then 6 else weekday today - 1)"

definition inCurrentWeek :: "date \<Rightarrow> date \<Rightarrow> bool" where
  "inCurrentWeek today d = (mondayOfWeek today \<le> d \<and> d \<le> mondayOfWeek today + 6)"

definition withCategory :: "grocery_item \<Rightarrow> category \<Rightarrow> grocery_item_with_category" where
  "withCategory i c = grocery_item.extend i (grocery_item_with_category.fields c)"

definition currentWeekItems_spec ::
    "zone \<Rightarrow> date_time \<Rightarrow> int \<Rightarrow> db \<Rightarrow> grocery_item_with_category list" where
  "currentWeekItems_spec z now coupleId s =
     List.map_filter
       (\<lambda>i. case owningList s i of
               None \<Rightarrow> None
             | Some l \<Rightarrow>
                 (case categoryOf s i of
                    None \<Rightarrow> None
                  | Some c \<Rightarrow>
                      if couple_id l = coupleId \<and> inCurrentWeek (localDate z now) (week_start l)
                      then Some (withCategory i c) else None))
       (groceryItemsTable s)"

text \<open>
  A store for the query: couple 1 has lists dated the Monday of the current week (list 1),
  the Monday before (2), the Monday after (4), the Sunday that ends the week (5) and the
  Sunday before it (6); list 3 is couple 2's, dated like list 1. Every list holds one item,
  the same but for its id and its list.
\<close>

definition fruits :: category where
  "fruits = \<lparr>cat_id = 1, cat_name = ''Fruits'', cat_created_at = 0\<rparr>"

definition apples_in :: "int \<Rightarrow> grocery_item" where
  "apples_in l =
     \<lparr>item_id = l, list_id = l, category_id = 1, name = ''Apples'', quantity = Some ''5'',
      is_completed = False, added_by_user_id = 1, completed_by_user_id = None,
      created_at = 0, completed_at = None\<rparr>"

definition pantry :: db where
  "pantry =
     \<lparr>usersTable =
        [\<lparr>usr_id = 1, usr_name = ''User 1'', usr_email = ''user1@test.com'', usr_created_at = 0\<rparr>,
         \<lparr>usr_id = 2, usr_name = ''User 2'', usr_email = ''user2@test.com'', usr_created_at = 0\<rparr>,
         \<lparr>usr_id = 3, usr_name = ''User 3'', usr_email = ''user3@test.com'', usr_created_at = 0\<rparr>,
         \<lparr>usr_id = 4, usr_name = ''User 4'', usr_email = ''user4@test.com'', usr_created_at = 0\<rparr>],
      couplesTable =
        [\<lparr>cpl_id = 1, user1_id = 1, user2_id = 2, cpl_created_at = 0\<rparr>,
         \<lparr>cpl_id = 2, user1_id = 3, user2_id = 4, cpl_created_at = 0\<rparr>],
      categoriesTable =
        [fruits, \<lparr>cat_id = 2, cat_name = ''Vegetables'', cat_created_at = 0\<rparr>],
      groceryListsTable =
        [\<lparr>lst_id = 1, couple_id = 1, week_start = 19723, lst_created_at = 0\<rparr>,
         \<lparr>lst_id = 2, couple_id = 1, week_start = 19716, lst_created_at = 0\<rparr>,
         \<lparr>lst_id = 3, couple_id = 2, week_start = 19723, lst_created_at = 0\<rparr>,
         \<lparr>lst_id = 4, couple_id = 1, week_start = 19730, lst_created_at = 0\<rparr>,
         \<lparr>lst_id = 5, couple_id = 1, week_start = 19729, lst_created_at = 0\<rparr>,
         \<lparr>lst_id = 6, couple_id = 1, week_start = 19722, lst_created_at = 0\<rparr>],
      groceryItemsTable =
        [apples_in 1, apples_in 2, apples_in 3, apples_in 4, apples_in 5, apples_in 6],
      grocery_lists_id_seq = 7,
      grocery_items_id_seq = 7\<rparr>"

section \<open>Week resolution: properties\<close>

lemma msPerDay_pos: "0 < msPerDay"
  by (simp add: msPerDay_def)

lemma days_back_range:
  "0 \<le> (if (d + 4) mod 7 = 0 then 6 else (d + 4) mod 7 - 1)
   \<and> (if (d + 4) mod 7 = 0 then 6 else (d + 4) mod 7 - 1) \<le> (6::int)"
  by (auto simp: pos_mod_sign)

lemma currentWeekStart_eq: "currentWeekStart z now = getCurrentWeekStart z now"
  by (simp add: currentWeekStart_def getCurrentWeekStart_def Let_def)


lemma week_start_steady:
  assumes steady:
    "\<forall>t. now - 7 * msPerDay \<le> t \<and> t \<le> now
       \<longrightarrow> utc_offset z t = c \<and> local_offset z (t + c) = c"
  defines "d \<equiv> (now + c) div msPerDay"
  defines "k \<equiv> (if (d + 4) mod 7 = 0 then 6 else (d + 4) mod 7 - 1)"
  shows "getCurrentWeekStart z now = (d - k) * msPerDay - c"
    and "getDay z now = (d + 4) mod 7"
    and "LocalTime z (getCurrentWeekStart z now) = (d - k) * msPerDay"
proof -
  have k: "0 \<le> k" "k \<le> 6"
    using days_back_range [of d] by (simp_all add: k_def)
  have D: "0 < msPerDay" by (rule msPerDay_pos)
  have at_now: "utc_offset z now = c"
    using steady D by simp
  show day: "getDay z now = (d + 4) mod 7"
    by (simp add: getDay_def LocalTime_def at_now d_def)
  have kD: "0 \<le> k * msPerDay" "k * msPerDay \<le> 6 * msPerDay"
    using k D by simp_all
  have earlier: "now - 7 * msPerDay \<le> now - k * msPerDay \<and> now - k * msPerDay \<le> now"
    using kD D by simp
  have off1: "utc_offset z (now - k * msPerDay) = c"
    using steady earlier by blast
  have off2: "local_offset z (now + c - k * msPerDay) = c"
  proof -
    have "local_offset z (now - k * msPerDay + c) = c"
      using steady earlier by blast
    moreover have "now - k * msPerDay + c = now + c - k * msPerDay"
      by simp
    ultimately show ?thesis
      by (simp only:)
  qed
  have shifted: "setDate_plus z now (- k) = now - k * msPerDay"
    by (simp add: setDate_plus_def LocalTime_def UTC_def at_now off2)
  have local1: "LocalTime z (now - k * msPerDay) div msPerDay = d - k"
  proof -
    have "now - k * msPerDay + c = now + c + (- k) * msPerDay" by simp
    then have "(now - k * msPerDay + c) div msPerDay = (now + c) div msPerDay + (- k)"
      using D by (simp only: div_mult_self1)
    then show ?thesis
      by (simp add: LocalTime_def off1 d_def)
  qed
  define m where "m = (d - k) * msPerDay"
  have d_lo: "d * msPerDay \<le> now + c" and d_hi: "now + c < d * msPerDay + msPerDay"
  proof -
    have "now + c = d * msPerDay + (now + c) mod msPerDay"
      by (simp add: d_def)
    moreover have "0 \<le> (now + c) mod msPerDay" "(now + c) mod msPerDay < msPerDay"
      using D by simp_all
    ultimately show "d * msPerDay \<le> now + c" "now + c < d * msPerDay + msPerDay"
      by linarith+
  qed
  have m_eq: "m = d * msPerDay - k * msPerDay"
    by (simp add: m_def left_diff_distrib)
  have m_window: "now - 7 * msPerDay \<le> m - c \<and> m - c \<le> now"
    using d_lo d_hi kD m_eq by linarith
  have off3: "local_offset z m = c" and off4: "utc_offset z (m - c) = c"
    using steady m_window by force+
  have setH: "setHours z (now - k * msPerDay) 0 0 0 0 = m - c"
    by (simp add: setHours_def local1 UTC_def off3 m_def [symmetric])
  have offset: "(if getDay z now = 0 then - 6 else 1 - getDay z now) = - k"
    by (simp add: day k_def)
  show start: "getCurrentWeekStart z now = (d - k) * msPerDay - c"
    by (simp add: getCurrentWeekStart_def Let_def offset shifted setH m_def)
  show "LocalTime z (getCurrentWeekStart z now) = (d - k) * msPerDay"
    using off4 by (simp add: start LocalTime_def m_def)
qed





section \<open>Numbers as ids: properties\<close>

lemma int4_of_is_id: "int4_of x = Some k \<longleftrightarrow> is_id x k"
  by (auto simp: int4_of_def is_id_def)

lemma int4_of_None: "int4_of x = None \<longleftrightarrow> (\<forall>k. \<not> is_id x k)"
  by (auto simp: int4_of_def is_id_def)

lemma is_id_unique: "is_id x k \<Longrightarrow> is_id x k' \<Longrightarrow> k = k'"
  by (simp add: is_id_def)

lemma int4_of_id: "is_id x k \<Longrightarrow> int4_of x = Some k"
  by (simp add: int4_of_is_id)

lemma int4_of_numeral [simp]:
  "int4_of (numeral n) = (if numeral n \<le> (2147483647::int) then Some (numeral n) else None)"
  by (simp add: int4_of_def)

lemma int4_of_0 [simp]: "int4_of 0 = Some 0"
  by (simp add: int4_of_def)

lemma int4_of_1 [simp]: "int4_of 1 = Some 1"
  by (simp add: int4_of_def)

lemma int4_of_half: "int4_of (3 / 2) = None"
proof -
  have "\<lfloor>3 / 2 :: rat\<rfloor> = 1"
    by (rule floor_unique) simp_all
  then show ?thesis
    by (simp add: int4_of_def)
qed

lemma is_id_numeral [simp]:
  "is_id (numeral n) k \<longleftrightarrow> k = numeral n \<and> numeral n \<le> (2147483647::int)"
  by (auto simp: is_id_def)

lemma is_id_1 [simp]: "is_id 1 k \<longleftrightarrow> k = 1"
  by (auto simp: is_id_def)

section \<open>The example stores are what the handlers produce\<close>

lemma week_of_wednesday_noon: "toISODate (getCurrentWeekStart utc wednesday_noon) = 19723"
  by (simp add: getCurrentWeekStart_def getDay_def setDate_plus_def setHours_def toISODate_def
      LocalTime_def UTC_def utc_def fixed_zone_def msPerDay_def wednesday_noon_def Let_def)


lemma add_bananas:
  "addGroceryItem utc wednesday_noon bananas household = (Inr bananas_row, with_bananas)"
  by (simp add: with_bananas_def bananas_row_def addGroceryItem_def household_def bananas_def
      allUserCouples_def groceryList_def insert_grocery_list_def insert_grocery_item_def
      item_values_def Let_def week_of_wednesday_noon)

lemma reachable_with_bananas: "reachable with_bananas"
proof -
  have "reachable household"
    by (rule reachable.no_items) (simp add: household_def)
  then have "reachable (snd (addGroceryItem utc wednesday_noon bananas household))"
    by (rule reachable.add)
  then show ?thesis
    by (simp add: add_bananas)
qed

lemma toggle_bananas:
  "toggleItemCompletion (wednesday_noon + 1000) 1 2 with_bananas
     = (Inr bananas_done_row, bananas_done)"
  by (simp add: toggleItemCompletion_def set_completion_def Let_def with_bananas_def
      household_def bananas_row_def bananas_done_def bananas_done_row_def)

lemma reachable_bananas_done: "reachable bananas_done"
proof -
  have "reachable (snd (toggleItemCompletion (wednesday_noon + 1000) 1 2 with_bananas))"
    by (rule reachable.toggle) (rule reachable_with_bananas)
  then show ?thesis
    by (simp add: toggle_bananas)
qed

section \<open>The branches of adding an item\<close>

lemma not_in_table: "k \<notin> f ` set xs \<longleftrightarrow> filter (\<lambda>x. f x = k) xs = []"
  by (auto simp: filter_empty_conv)







section \<open>The completion fields follow the completion flag\<close>

lemma item_of_add:
  "i \<in> set (groceryItemsTable (snd (addGroceryItem z now input s))) \<Longrightarrow>
   i \<in> set (groceryItemsTable s)
   \<or> (\<not> is_completed i \<and> completed_by_user_id i = None \<and> completed_at i = None)"
  by (auto simp: addGroceryItem_def insert_grocery_item_def insert_grocery_list_def Let_def
      split: if_splits option.splits list.splits)

lemma item_of_toggle:
  "i \<in> set (groceryItemsTable (snd (toggleItemCompletion now itemId userId s))) \<Longrightarrow>
   i \<in> set (groceryItemsTable s)
   \<or> (is_completed i \<and> completed_by_user_id i \<noteq> None \<and> completed_at i = Some now)
   \<or> (\<not> is_completed i \<and> completed_by_user_id i = None \<and> completed_at i = None)"
  by (auto simp: toggleItemCompletion_def set_completion_def Let_def
      split: if_splits list.splits option.splits sum.splits)

lemma item_of_remove:
  "i \<in> set (groceryItemsTable (snd (removeGroceryItem itemId s))) \<Longrightarrow>
   i \<in> set (groceryItemsTable s)"
  by (simp add: removeGroceryItem_def Let_def split: option.splits)

text \<open>
  C3. In every store that the item operations reach, every item is completed if and only if
  both \<open>completed_by_user_id\<close> and \<open>completed_at\<close> are set, and it is not completed if
  and only if both are null.
\<close>

theorem completion_fields_follow_flag:
  "reachable s \<Longrightarrow>
   \<forall>i \<in> set (groceryItemsTable s).
     (is_completed i \<longleftrightarrow> completed_by_user_id i \<noteq> None \<and> completed_at i \<noteq> None)
     \<and> (\<not> is_completed i \<longleftrightarrow> completed_by_user_id i = None \<and> completed_at i = None)"
proof (induction rule: reachable.induct)
  case (no_items s)
  then show ?case by simp
next
  case (add s z now input)
  show ?case
  proof
    fix i
    assume "i \<in> set (groceryItemsTable (snd (addGroceryItem z now input s)))"
    then consider "i \<in> set (groceryItemsTable s)"
      | "\<not> is_completed i \<and> completed_by_user_id i = None \<and> completed_at i = None"
      using item_of_add by blast
    then show "(is_completed i \<longleftrightarrow> completed_by_user_id i \<noteq> None \<and> completed_at i \<noteq> None)
      \<and> (\<not> is_completed i \<longleftrightarrow> completed_by_user_id i = None \<and> completed_at i = None)"
    proof cases
      case 1
      then show ?thesis by (rule bspec [OF add.IH])
    next
      case 2
      then show ?thesis by simp
    qed
  qed
next
  case (toggle s now itemId userId)
  show ?case
  proof
    fix i
    assume "i \<in> set (groceryItemsTable (snd (toggleItemCompletion now itemId userId s)))"
    then consider "i \<in> set (groceryItemsTable s)"
      | "is_completed i \<and> completed_by_user_id i \<noteq> None \<and> completed_at i = Some now"
      | "\<not> is_completed i \<and> completed_by_user_id i = None \<and> completed_at i = None"
      using item_of_toggle by blast
    then show "(is_completed i \<longleftrightarrow> completed_by_user_id i \<noteq> None \<and> completed_at i \<noteq> None)
      \<and> (\<not> is_completed i \<longleftrightarrow> completed_by_user_id i = None \<and> completed_at i = None)"
    proof cases
      case 1
      then show ?thesis by (rule bspec [OF toggle.IH])
    next
      case 2
      then show ?thesis by simp
    next
      case 3
      then show ?thesis by simp
    qed
  qed
next
  case (remove s itemId)
  show ?case
  proof
    fix i
    assume "i \<in> set (groceryItemsTable (snd (removeGroceryItem itemId s)))"
    then have "i \<in> set (groceryItemsTable s)"
      by (rule item_of_remove)
    then show "(is_completed i \<longleftrightarrow> completed_by_user_id i \<noteq> None \<and> completed_at i \<noteq> None)
      \<and> (\<not> is_completed i \<longleftrightarrow> completed_by_user_id i = None \<and> completed_at i = None)"
      by (rule bspec [OF remove.IH])
  qed
qed

text \<open>The invariant at a reachable store with a completed item.\<close>

theorem completion_fields_follow_flag_witness:
  "reachable bananas_done
   \<and> bananas_done_row \<in> set (groceryItemsTable bananas_done)
   \<and> is_completed bananas_done_row
   \<and> completed_by_user_id bananas_done_row \<noteq> None
   \<and> completed_at bananas_done_row \<noteq> None"
proof -
  have row: "bananas_done_row \<in> set (groceryItemsTable bananas_done)"
    by (simp add: bananas_done_def)
  have flag: "is_completed bananas_done_row"
    by (simp add: bananas_done_row_def)
  from completion_fields_follow_flag [OF reachable_bananas_done] row
  have "is_completed bananas_done_row \<longleftrightarrow>
          completed_by_user_id bananas_done_row \<noteq> None
          \<and> completed_at bananas_done_row \<noteq> None"
    by blast
  with flag row reachable_bananas_done show ?thesis
    by blast
qed

section \<open>Removing an item: the success flag\<close>

text \<open>
  Item 1 is the only item. No item has the id 2147483648, and none has the id 1.5; both
  pass the input schema, which asks for a number. Removing either raises: the id column
  cannot hold the number, the store rejects the statement and the handler rethrows.
\<close>

theorem remove_unreadable_id_counterexample:
  "map item_id (groceryItemsTable with_bananas) = [1]
   \<and> removeGroceryItem 2147483648 with_bananas
       = (Inl (DataException 2147483648), with_bananas)
   \<and> removeGroceryItem (3 / 2) with_bananas = (Inl (DataException (3 / 2)), with_bananas)"
  by (simp add: removeGroceryItem_def int4_of_half with_bananas_def bananas_row_def)

text \<open>
  C8 (amended). For a number that is a value of the id column, \<open>removeGroceryItem\<close> does
  not raise: it deletes the rows with the id and reports \<open>success\<close> exactly when there
  was one, so for an id that no item has it reports \<open>success = False\<close>, and a second call
  with the same id reports \<open>success = False\<close>. For a number that is no value of the id
  column the call fails with the error of the store, and deletes nothing.
\<close>

theorem remove_reports_deletion:
  "(\<forall>k. is_id item_ref k \<longrightarrow>
      removeGroceryItem item_ref s =
        (Inr \<lparr>success = (k \<in> item_id ` set (groceryItemsTable s))\<rparr>,
         s\<lparr>groceryItemsTable := filter (\<lambda>i. item_id i \<noteq> k) (groceryItemsTable s)\<rparr>)
      \<and> fst (removeGroceryItem item_ref (snd (removeGroceryItem item_ref s)))
          = Inr \<lparr>success = False\<rparr>)
   \<and> ((\<forall>k. \<not> is_id item_ref k) \<longrightarrow>
        removeGroceryItem item_ref s = (Inl (DataException item_ref), s)
        \<and> kind (DataException item_ref) = StorageError)"
proof (intro conjI allI impI)
  fix k
  assume id: "is_id item_ref k"
  have "(0 < length (filter (\<lambda>i. item_id i = k) (groceryItemsTable s)))
          = (k \<in> item_id ` set (groceryItemsTable s))"
    by (auto simp: filter_empty_conv)
  then show first: "removeGroceryItem item_ref s =
        (Inr \<lparr>success = (k \<in> item_id ` set (groceryItemsTable s))\<rparr>,
         s\<lparr>groceryItemsTable := filter (\<lambda>i. item_id i \<noteq> k) (groceryItemsTable s)\<rparr>)"
    by (simp add: removeGroceryItem_def Let_def int4_of_id [OF id])
  have "filter (\<lambda>i. item_id i = k)
            (filter (\<lambda>i. item_id i \<noteq> k) (groceryItemsTable s)) = []"
    by (simp add: filter_empty_conv)
  then show "fst (removeGroceryItem item_ref (snd (removeGroceryItem item_ref s)))
          = Inr \<lparr>success = False\<rparr>"
    by (simp add: first) (simp add: removeGroceryItem_def Let_def int4_of_id [OF id])
next
  assume "\<forall>k. \<not> is_id item_ref k"
  then have "int4_of item_ref = None"
    by (simp add: int4_of_None)
  then show "removeGroceryItem item_ref s = (Inl (DataException item_ref), s)"
    by (simp add: removeGroceryItem_def)
next
  show "kind (DataException item_ref) = StorageError"
    by simp
qed

text \<open>
  Removing item 1 twice, removing an id that no item has, and removing with a number that
  the id column cannot hold.
\<close>

theorem remove_reports_deletion_witness:
  "removeGroceryItem 1 with_bananas
     = (Inr \<lparr>success = True\<rparr>, with_bananas\<lparr>groceryItemsTable := []\<rparr>)
   \<and> fst (removeGroceryItem 1 (snd (removeGroceryItem 1 with_bananas)))
       = Inr \<lparr>success = False\<rparr>
   \<and> removeGroceryItem 999999 with_bananas = (Inr \<lparr>success = False\<rparr>, with_bananas)
   \<and> removeGroceryItem 2147483648 with_bananas
       = (Inl (DataException 2147483648), with_bananas)"
proof -
  have present: "(1 \<in> item_id ` set (groceryItemsTable with_bananas)) = True"
    and absent: "(999999 \<in> item_id ` set (groceryItemsTable with_bananas)) = False"
    and others: "filter (\<lambda>i. item_id i \<noteq> 1) (groceryItemsTable with_bananas) = []"
    and all: "filter (\<lambda>i. item_id i \<noteq> 999999) (groceryItemsTable with_bananas)
                = groceryItemsTable with_bananas"
    by (simp_all add: with_bananas_def bananas_row_def)
  have none: "\<forall>k. \<not> is_id 2147483648 k"
    by simp
  show ?thesis
    using remove_reports_deletion [of 1 with_bananas]
      remove_reports_deletion [of 999999 with_bananas]
      remove_reports_deletion [of 2147483648 with_bananas] none
    by (auto simp add: present absent others all)
qed

section \<open>Toggling completion: flip or fail\<close>

lemma toggle_rejected:
  "int4_of item_ref = None \<Longrightarrow>
   toggleItemCompletion now item_ref user_ref s = (Inl (DataException item_ref), s)"
  by (simp add: toggleItemCompletion_def)

lemma toggle_missing:
  "is_id item_ref k \<Longrightarrow> filter (\<lambda>i. item_id i = k) (groceryItemsTable s) = [] \<Longrightarrow>
   toggleItemCompletion now item_ref user_ref s = (Inl (GroceryItemNotFound k), s)"
  by (simp add: toggleItemCompletion_def int4_of_id)

lemma toggle_found:
  "is_id item_ref k \<Longrightarrow> filter (\<lambda>i. item_id i = k) (groceryItemsTable s) = cur # rest \<Longrightarrow>
   toggleItemCompletion now item_ref user_ref s =
     (case completed_by_column s (if is_completed cur then None else Some user_ref) of
        Inl e \<Rightarrow> (Inl e, s)
      | Inr who \<Rightarrow>
          (Inr (set_completion (\<not> is_completed cur) who
                  (if is_completed cur then None else Some now) cur),
           s\<lparr>groceryItemsTable :=
               map (\<lambda>i. if item_id i = k
                         then set_completion (\<not> is_completed cur) who
                                (if is_completed cur then None else Some now) i
                         else i)
                 (groceryItemsTable s)\<rparr>))"
  by (simp add: toggleItemCompletion_def int4_of_id Let_def)

lemma column_accepts:
  "is_id user_ref u \<Longrightarrow> u \<in> usr_id ` set (usersTable s) \<Longrightarrow>
   completed_by_column s (Some user_ref) = Inr (Some u)"
  by (auto simp: int4_of_id filter_empty_conv)

lemma column_rejects:
  assumes "\<not> (\<exists>u. is_id user_ref u \<and> u \<in> usr_id ` set (usersTable s))"
  shows "\<exists>e. completed_by_column s (Some user_ref) = Inl e \<and> kind e = StorageError"
proof (cases "int4_of user_ref")
  case None
  then show ?thesis by simp
next
  case (Some u)
  then have "is_id user_ref u"
    by (simp add: int4_of_is_id)
  then have "u \<notin> usr_id ` set (usersTable s)"
    using assms by blast
  then have "filter (\<lambda>x. usr_id x = u) (usersTable s) = []"
    by (auto simp: filter_empty_conv)
  then show ?thesis
    by (simp add: Some)
qed


text \<open>
  The bananas exist and are not completed; user 999 does not exist. The toggle neither
  flips the flag nor returns a row: the store rejects the update. And no item has the id
  2147483648, yet the toggle of that id does not fail with a NotFound error: the store
  rejects the number.
\<close>

theorem toggle_unknown_user_counterexample:
  "map item_id (groceryItemsTable with_bananas) = [1]
   \<and> toggleItemCompletion (wednesday_noon + 1000) 1 999 with_bananas
       = (Inl (ForeignKeyViolation ''grocery_items_completed_by_user_id_users_id_fk''),
          with_bananas)
   \<and> map is_completed (groceryItemsTable with_bananas) = [False]
   \<and> toggleItemCompletion (wednesday_noon + 1000) 2147483648 1 with_bananas
       = (Inl (DataException 2147483648), with_bananas)
   \<and> kind (DataException 2147483648) = StorageError"
  by (simp add: toggleItemCompletion_def Let_def with_bananas_def household_def
      bananas_row_def)

text \<open>
  C5 (amended). \<open>toggleItemCompletion\<close> fails with a NotFound error exactly when the
  number it is given is a value of the id column and no item has it; for a number that is
  no value of the id column it fails with the error of the store. When the item exists and
  is completed, the call makes it incomplete and sets \<open>completed_by_user_id\<close> and
  \<open>completed_at\<close> to null. When the item exists, is not completed, and the acting user
  exists, the call makes it complete and sets \<open>completed_by_user_id\<close> to the acting user
  and \<open>completed_at\<close> to the current time. In both cases it returns the updated row. When
  the item is not completed and the acting user does not exist, the store rejects the
  update: the call fails with that storage error and changes nothing.
\<close>

theorem toggle_flips_when_the_store_accepts:
  "((\<exists>e. fst (toggleItemCompletion now item_ref user_ref s) = Inl e \<and> kind e = NotFound)
      \<longleftrightarrow> (\<exists>k. is_id item_ref k \<and> k \<notin> item_id ` set (groceryItemsTable s)))
   \<and> ((\<forall>k. \<not> is_id item_ref k) \<longrightarrow>
        toggleItemCompletion now item_ref user_ref s = (Inl (DataException item_ref), s)
        \<and> kind (DataException item_ref) = StorageError)
   \<and> (\<forall>k cur rest.
         is_id item_ref k
         \<and> filter (\<lambda>i. item_id i = k) (groceryItemsTable s) = cur # rest
         \<and> is_completed cur
         \<longrightarrow>
         toggleItemCompletion now item_ref user_ref s =
           (Inr (cur\<lparr>is_completed := False, completed_by_user_id := None,
                     completed_at := None\<rparr>),
            s\<lparr>groceryItemsTable :=
                map (\<lambda>i. if item_id i = k
                          then i\<lparr>is_completed := False, completed_by_user_id := None,
                                 completed_at := None\<rparr>
                          else i)
                  (groceryItemsTable s)\<rparr>))
   \<and> (\<forall>k cur rest u.
         is_id item_ref k
         \<and> filter (\<lambda>i. item_id i = k) (groceryItemsTable s) = cur # rest
         \<and> \<not> is_completed cur
         \<and> is_id user_ref u \<and> u \<in> usr_id ` set (usersTable s)
         \<longrightarrow>
         toggleItemCompletion now item_ref user_ref s =
           (Inr (cur\<lparr>is_completed := True, completed_by_user_id := Some u,
                     completed_at := Some now\<rparr>),
            s\<lparr>groceryItemsTable :=
                map (\<lambda>i. if item_id i = k
                          then i\<lparr>is_completed := True, completed_by_user_id := Some u,
                                 completed_at := Some now\<rparr>
                          else i)
                  (groceryItemsTable s)\<rparr>))
   \<and> (\<forall>k cur rest.
         is_id item_ref k
         \<and> filter (\<lambda>i. item_id i = k) (groceryItemsTable s) = cur # rest
         \<and> \<not> is_completed cur
         \<and> \<not> (\<exists>u. is_id user_ref u \<and> u \<in> usr_id ` set (usersTable s))
         \<longrightarrow>
         (\<exists>e. toggleItemCompletion now item_ref user_ref s = (Inl e, s)
               \<and> kind e = StorageError))"
proof (intro conjI allI impI; (elim conjE)?)
  show "(\<exists>e. fst (toggleItemCompletion now item_ref user_ref s) = Inl e \<and> kind e = NotFound)
      \<longleftrightarrow> (\<exists>k. is_id item_ref k \<and> k \<notin> item_id ` set (groceryItemsTable s))"
  proof (cases "int4_of item_ref")
    case None
    then show ?thesis
      by (simp add: toggle_rejected int4_of_None)
  next
    case (Some k)
    then have id: "is_id item_ref k"
      by (simp add: int4_of_is_id)
    have only: "(\<exists>k'. is_id item_ref k' \<and> k' \<notin> item_id ` set (groceryItemsTable s))
                  \<longleftrightarrow> k \<notin> item_id ` set (groceryItemsTable s)"
      using id is_id_unique by blast
    show ?thesis
    proof (cases "filter (\<lambda>i. item_id i = k) (groceryItemsTable s)")
      case Nil
      then have "k \<notin> item_id ` set (groceryItemsTable s)"
        by (auto simp: filter_empty_conv)
      then show ?thesis
        by (simp add: only toggle_missing [OF id Nil])
    next
      case (Cons cur rest)
      then have "cur \<in> set (filter (\<lambda>i. item_id i = k) (groceryItemsTable s))"
        by simp
      then have here: "k \<in> item_id ` set (groceryItemsTable s)"
        by auto
      have "\<not> (\<exists>e. fst (toggleItemCompletion now item_ref user_ref s) = Inl e
                   \<and> kind e = NotFound)"
        by (cases "int4_of user_ref")
          (auto simp: toggle_found [OF id Cons] split: sum.splits if_splits)
      then show ?thesis
        by (simp add: only here)
    qed
  qed
next
  assume "\<forall>k. \<not> is_id item_ref k"
  then show "toggleItemCompletion now item_ref user_ref s = (Inl (DataException item_ref), s)"
    by (simp add: toggle_rejected int4_of_None)
next
  show "kind (DataException item_ref) = StorageError"
    by simp
next
  fix k cur rest
  assume "is_id item_ref k"
    and "filter (\<lambda>i. item_id i = k) (groceryItemsTable s) = cur # rest"
    and "is_completed cur"
  then show "toggleItemCompletion now item_ref user_ref s =
           (Inr (cur\<lparr>is_completed := False, completed_by_user_id := None,
                     completed_at := None\<rparr>),
            s\<lparr>groceryItemsTable :=
                map (\<lambda>i. if item_id i = k
                          then i\<lparr>is_completed := False, completed_by_user_id := None,
                                 completed_at := None\<rparr>
                          else i)
                  (groceryItemsTable s)\<rparr>)"
    by (simp add: toggle_found set_completion_def)
next
  fix k cur rest u
  assume "is_id item_ref k"
    and "filter (\<lambda>i. item_id i = k) (groceryItemsTable s) = cur # rest"
    and "\<not> is_completed cur"
    and "is_id user_ref u" and "u \<in> usr_id ` set (usersTable s)"
  then show "toggleItemCompletion now item_ref user_ref s =
           (Inr (cur\<lparr>is_completed := True, completed_by_user_id := Some u,
                     completed_at := Some now\<rparr>),
            s\<lparr>groceryItemsTable :=
                map (\<lambda>i. if item_id i = k
                          then i\<lparr>is_completed := True, completed_by_user_id := Some u,
                                 completed_at := Some now\<rparr>
                          else i)
                  (groceryItemsTable s)\<rparr>)"
    by (simp add: toggle_found column_accepts [of user_ref u s] set_completion_def
        del: completed_by_column.simps)
next
  fix k cur rest
  assume id: "is_id item_ref k"
    and rows: "filter (\<lambda>i. item_id i = k) (groceryItemsTable s) = cur # rest"
    and "\<not> is_completed cur"
    and "\<not> (\<exists>u. is_id user_ref u \<and> u \<in> usr_id ` set (usersTable s))"
  then show "\<exists>e. toggleItemCompletion now item_ref user_ref s = (Inl e, s)
               \<and> kind e = StorageError"
    using column_rejects [of user_ref s]
    by (auto simp: toggle_found [OF id rows] simp del: completed_by_column.simps)
qed

text \<open>
  User 2 ticks the bananas off, and user 1 opens them again; item 999 is not found; user
  999 cannot tick the bananas off; the number 1.5 names no item and is rejected.
\<close>

theorem toggle_flips_when_the_store_accepts_witness:
  "toggleItemCompletion (wednesday_noon + 1000) 1 2 with_bananas
     = (Inr (bananas_row\<lparr>is_completed := True, completed_by_user_id := Some 2,
                          completed_at := Some (wednesday_noon + 1000)\<rparr>),
        with_bananas\<lparr>groceryItemsTable :=
          [bananas_row\<lparr>is_completed := True, completed_by_user_id := Some 2,
                        completed_at := Some (wednesday_noon + 1000)\<rparr>]\<rparr>)
   \<and> toggleItemCompletion (wednesday_noon + 2000) 1 1 bananas_done
       = (Inr bananas_row, with_bananas)
   \<and> (\<exists>e. fst (toggleItemCompletion wednesday_noon 999 1 with_bananas) = Inl e
          \<and> kind e = NotFound)
   \<and> (\<exists>e. toggleItemCompletion wednesday_noon 1 999 with_bananas = (Inl e, with_bananas)
          \<and> kind e = StorageError)
   \<and> toggleItemCompletion wednesday_noon (3 / 2) 1 with_bananas
       = (Inl (DataException (3 / 2)), with_bananas)"
proof -
  have rows: "filter (\<lambda>i. item_id i = 1) (groceryItemsTable with_bananas) = bananas_row # []"
    and open_item: "\<not> is_completed bananas_row"
    by (simp_all add: with_bananas_def bananas_row_def)
  have rows': "filter (\<lambda>i. item_id i = 1) (groceryItemsTable bananas_done)
                 = bananas_done_row # []"
    and ticked: "is_completed bananas_done_row"
    by (simp_all add: bananas_done_def bananas_done_row_def bananas_row_def)
  have user: "2 \<in> usr_id ` set (usersTable with_bananas)"
    and no_user: "\<not> (\<exists>u. is_id 999 u \<and> u \<in> usr_id ` set (usersTable with_bananas))"
    by (simp_all add: with_bananas_def household_def)
  have none: "\<exists>k. is_id 999 k \<and> k \<notin> item_id ` set (groceryItemsTable with_bananas)"
    by (simp add: with_bananas_def bananas_row_def)
  have half: "\<forall>k. \<not> is_id (3 / 2) k"
    using int4_of_half by (simp add: int4_of_None)
  note flips = toggle_flips_when_the_store_accepts
  have first:
    "toggleItemCompletion (wednesday_noon + 1000) 1 2 with_bananas =
       (Inr (bananas_row\<lparr>is_completed := True, completed_by_user_id := Some 2,
               completed_at := Some (wednesday_noon + 1000)\<rparr>),
        with_bananas\<lparr>groceryItemsTable :=
           map (\<lambda>i. if item_id i = 1
                     then i\<lparr>is_completed := True, completed_by_user_id := Some 2,
                            completed_at := Some (wednesday_noon + 1000)\<rparr>
                     else i)
             (groceryItemsTable with_bananas)\<rparr>)"
    using flips [of "wednesday_noon + 1000" 1 2 with_bananas] rows open_item user
    by (simp del: image_set)
  have opened:
    "toggleItemCompletion (wednesday_noon + 2000) 1 1 bananas_done =
       (Inr (bananas_done_row\<lparr>is_completed := False, completed_by_user_id := None,
               completed_at := None\<rparr>),
        bananas_done\<lparr>groceryItemsTable :=
           map (\<lambda>i. if item_id i = 1
                     then i\<lparr>is_completed := False, completed_by_user_id := None,
                            completed_at := None\<rparr>
                     else i)
             (groceryItemsTable bananas_done)\<rparr>)"
    using flips [of "wednesday_noon + 2000" 1 1 bananas_done] rows' ticked
    by simp
  have second:
    "\<exists>e. fst (toggleItemCompletion wednesday_noon 999 1 with_bananas) = Inl e
          \<and> kind e = NotFound"
    using flips [of wednesday_noon 999 1 with_bananas] none
    by blast
  have third:
    "\<exists>e. toggleItemCompletion wednesday_noon 1 999 with_bananas = (Inl e, with_bananas)
          \<and> kind e = StorageError"
    using flips [of wednesday_noon 1 999 with_bananas] rows open_item no_user
    by (simp del: image_set is_id_numeral)
  have fourth:
    "toggleItemCompletion wednesday_noon (3 / 2) 1 with_bananas
       = (Inl (DataException (3 / 2)), with_bananas)"
    using flips [of wednesday_noon "3 / 2" 1 with_bananas] half
    by blast
  show ?thesis
    using first opened second third fourth
    by (simp add: with_bananas_def bananas_row_def household_def bananas_done_def
        bananas_done_row_def)
qed

section \<open>Toggling twice\<close>

lemma toggle_accepted:
  assumes "is_id item_ref k"
    and "filter (\<lambda>i. item_id i = k) (groceryItemsTable s) = cur # rest"
    and "is_id user_ref u"
    and "filter (\<lambda>x. usr_id x = u) (usersTable s) \<noteq> []"
  shows "toggleItemCompletion now item_ref user_ref s =
     (Inr (set_completion (\<not> is_completed cur)
             (if is_completed cur then None else Some u)
             (if is_completed cur then None else Some now) cur),
      s\<lparr>groceryItemsTable :=
          map (\<lambda>i. if item_id i = k
                    then set_completion (\<not> is_completed cur)
                           (if is_completed cur then None else Some u)
                           (if is_completed cur then None else Some now) i
                    else i)
            (groceryItemsTable s)\<rparr>)"
  using assms by (simp add: toggle_found int4_of_id)

lemma item_id_set_completion: "item_id (set_completion c who stamp i) = item_id i"
  by (simp add: set_completion_def)

lemma filter_id_map_set_completion:
  "filter (\<lambda>i. item_id i = k)
     (map (\<lambda>i. if item_id i = k then set_completion c who stamp i else i) xs)
   = map (set_completion c who stamp) (filter (\<lambda>i. item_id i = k) xs)"
  by (induction xs) (simp_all add: item_id_set_completion)

lemma set_completion_twice:
  "set_completion c who stamp (set_completion c' who' stamp' i)
     = i\<lparr>is_completed := c, completed_by_user_id := who, completed_at := stamp\<rparr>"
  by (simp add: set_completion_def)

text \<open>
  The bananas were ticked off by user 2 at 12:00:01. User 1 toggles them twice, at 12:00:02
  and 12:00:03: they are complete again, but completed by user 1 at 12:00:03, which is not
  the row the two toggles started from.
\<close>

theorem toggle_twice_counterexample:
  "groceryItemsTable bananas_done = [bananas_done_row]
   \<and> toggleItemCompletion (wednesday_noon + 3000) 1 1
        (snd (toggleItemCompletion (wednesday_noon + 2000) 1 1 bananas_done))
       = (Inr (bananas_done_row\<lparr>completed_by_user_id := Some 1,
                                  completed_at := Some (wednesday_noon + 3000)\<rparr>),
          bananas_done\<lparr>groceryItemsTable :=
            [bananas_done_row\<lparr>completed_by_user_id := Some 1,
                               completed_at := Some (wednesday_noon + 3000)\<rparr>]\<rparr>)
   \<and> bananas_done_row\<lparr>completed_by_user_id := Some 1,
                        completed_at := Some (wednesday_noon + 3000)\<rparr> \<noteq> bananas_done_row"
  by (simp add: toggleItemCompletion_def set_completion_def Let_def bananas_done_def
      bananas_done_row_def with_bananas_def household_def bananas_row_def wednesday_noon_def)

text \<open>
  C4 (amended). Let exactly one item have the id, and let the acting user exist. Two
  toggles in succession by that user leave every column of the item but
  \<open>completed_by_user_id\<close> and \<open>completed_at\<close> as it was, \<open>is_completed\<close> among
  them, and change no other row. An item that was incomplete with both completion fields
  null is back in its original state, and so is the store. An item that was complete is
  complete again, now completed by the acting user at the time of the second toggle.
\<close>

theorem toggle_twice_restores_flag:
  "is_id item_ref itemId
   \<and> filter (\<lambda>i. item_id i = itemId) (groceryItemsTable s) = [cur]
   \<and> is_id user_ref userId
   \<and> filter (\<lambda>u. usr_id u = userId) (usersTable s) \<noteq> []
   \<longrightarrow>
   (let s1 = snd (toggleItemCompletion now1 item_ref user_ref s);
        second = toggleItemCompletion now2 item_ref user_ref s1
    in fst second =
         Inr (cur\<lparr>completed_by_user_id := (if is_completed cur then Some userId else None),
                   completed_at := (if is_completed cur then Some now2 else None)\<rparr>)
       \<and> snd second =
           s\<lparr>groceryItemsTable :=
               map (\<lambda>i. if item_id i = itemId
                         then i\<lparr>completed_by_user_id :=
                                  (if is_completed cur then Some userId else None),
                                completed_at :=
                                  (if is_completed cur then Some now2 else None)\<rparr>
                         else i)
                 (groceryItemsTable s)\<rparr>
       \<and> (\<not> is_completed cur \<and> completed_by_user_id cur = None \<and> completed_at cur = None
            \<longrightarrow> second = (Inr cur, s)))"
proof (intro impI, elim conjE)
  assume id: "is_id item_ref itemId"
    and rows: "filter (\<lambda>i. item_id i = itemId) (groceryItemsTable s) = [cur]"
    and uid: "is_id user_ref userId"
    and user: "filter (\<lambda>u. usr_id u = userId) (usersTable s) \<noteq> []"
  define c where "c = is_completed cur"
  define s1 where "s1 = snd (toggleItemCompletion now1 item_ref user_ref s)"
  define second where "second = toggleItemCompletion now2 item_ref user_ref s1"
  define upd where "upd = (\<lambda>i::grocery_item.
     i\<lparr>completed_by_user_id := (if c then Some userId else None),
       completed_at := (if c then Some now2 else None)\<rparr>)"
  define t1 where "t1 = set_completion (\<not> c) (if c then None else Some userId)
                          (if c then None else Some now1)"
  define t2 where "t2 = set_completion c (if c then Some userId else None)
                          (if c then Some now2 else None)"
  have only: "i = cur" if "i \<in> set (groceryItemsTable s)" "item_id i = itemId" for i
  proof -
    from that have "i \<in> set (filter (\<lambda>i. item_id i = itemId) (groceryItemsTable s))"
      by simp
    then show ?thesis
      by (simp add: rows)
  qed
  have s1: "s1 = s\<lparr>groceryItemsTable :=
      map (\<lambda>i. if item_id i = itemId then t1 i else i) (groceryItemsTable s)\<rparr>"
    using toggle_accepted [OF id rows uid user, of now1] by (simp add: s1_def c_def t1_def)
  have rows1: "filter (\<lambda>i. item_id i = itemId) (groceryItemsTable s1) = [t1 cur]"
    unfolding s1 t1_def by (simp add: filter_id_map_set_completion rows)
  have user1: "filter (\<lambda>u. usr_id u = userId) (usersTable s1) \<noteq> []"
    using user by (simp add: s1)
  have flag1: "is_completed (t1 cur) = (\<not> c)"
    by (simp add: t1_def set_completion_def)
  define g1 where "g1 = (\<lambda>i. if item_id i = itemId then t1 i else i)"
  define g2 where "g2 = (\<lambda>i. if item_id i = itemId then t2 i else i)"
  define u where "u = (\<lambda>i. if item_id i = itemId then upd i else i)"
  have t2_t1: "t2 (t1 cur) = upd cur"
    by (simp add: t1_def t2_def set_completion_twice upd_def c_def)
  have twice: "g2 (g1 i) = u i" if "i \<in> set (groceryItemsTable s)" for i
  proof (cases "item_id i = itemId")
    case True
    then have "i = cur" using that by (rule only [rotated])
    then show ?thesis
      using True t2_t1 by (simp add: g1_def g2_def u_def t1_def item_id_set_completion)
  next
    case False
    then show ?thesis by (simp add: g1_def g2_def u_def)
  qed
  have maps: "map (g2 \<circ> g1) (groceryItemsTable s) = map u (groceryItemsTable s)"
    by (rule map_cong) (simp_all add: twice)
  have second: "second =
      (Inr (upd cur),
       s\<lparr>groceryItemsTable :=
           map (\<lambda>i. if item_id i = itemId then upd i else i) (groceryItemsTable s)\<rparr>)"
  proof -
    have "second = (Inr (t2 (t1 cur)), s1\<lparr>groceryItemsTable := map g2 (groceryItemsTable s1)\<rparr>)"
      using toggle_accepted [OF id rows1 uid user1, of now2]
      by (simp add: second_def flag1 g2_def t2_def)
    also have "t2 (t1 cur) = upd cur"
      by (rule t2_t1)
    also have "groceryItemsTable s1 = map g1 (groceryItemsTable s)"
      by (simp add: s1 g1_def)
    also have "s1\<lparr>groceryItemsTable := map g2 (map g1 (groceryItemsTable s))\<rparr>
         = s\<lparr>groceryItemsTable := map u (groceryItemsTable s)\<rparr>"
      by (simp add: s1 maps)
    finally show ?thesis
      by (simp add: u_def)
  qed
  have restored: "second = (Inr cur, s)"
    if "\<not> is_completed cur \<and> completed_by_user_id cur = None \<and> completed_at cur = None"
  proof -
    have same: "upd cur = cur"
      using that by (simp add: upd_def c_def)
    have "(if item_id i = itemId then upd i else i) = i"
      if "i \<in> set (groceryItemsTable s)" for i
      using only [OF that] same by (cases "item_id i = itemId") simp_all
    then have "map (\<lambda>i. if item_id i = itemId then upd i else i) (groceryItemsTable s)
                 = groceryItemsTable s"
      by (simp add: map_idI)
    then show ?thesis
      by (simp add: second same)
  qed
  show "let s1 = snd (toggleItemCompletion now1 item_ref user_ref s);
        second = toggleItemCompletion now2 item_ref user_ref s1
    in fst second =
         Inr (cur\<lparr>completed_by_user_id := (if is_completed cur then Some userId else None),
                   completed_at := (if is_completed cur then Some now2 else None)\<rparr>)
       \<and> snd second =
           s\<lparr>groceryItemsTable :=
               map (\<lambda>i. if item_id i = itemId
                         then i\<lparr>completed_by_user_id :=
                                  (if is_completed cur then Some userId else None),
                                completed_at :=
                                  (if is_completed cur then Some now2 else None)\<rparr>
                         else i)
                 (groceryItemsTable s)\<rparr>
       \<and> (\<not> is_completed cur \<and> completed_by_user_id cur = None \<and> completed_at cur = None
            \<longrightarrow> second = (Inr cur, s))"
    unfolding Let_def s1_def [symmetric] second_def [symmetric]
    using restored by (simp add: second upd_def c_def)
qed

text \<open>Two toggles of the fresh bananas by user 2, and of the ticked bananas by user 1.\<close>

theorem toggle_twice_restores_flag_witness:
  "toggleItemCompletion (wednesday_noon + 2000) 1 2
     (snd (toggleItemCompletion (wednesday_noon + 1000) 1 2 with_bananas))
     = (Inr bananas_row, with_bananas)
   \<and> fst (toggleItemCompletion (wednesday_noon + 3000) 1 1
         (snd (toggleItemCompletion (wednesday_noon + 2000) 1 1 bananas_done)))
       = Inr (bananas_done_row\<lparr>completed_by_user_id := Some 1,
                                completed_at := Some (wednesday_noon + 3000)\<rparr>)"
proof -
  have rows: "filter (\<lambda>i. item_id i = 1) (groceryItemsTable with_bananas) = [bananas_row]"
    and user: "filter (\<lambda>u. usr_id u = 2) (usersTable with_bananas) \<noteq> []"
    and fresh: "\<not> is_completed bananas_row \<and> completed_by_user_id bananas_row = None
                 \<and> completed_at bananas_row = None"
    by (simp_all add: with_bananas_def household_def bananas_row_def)
  have rows': "filter (\<lambda>i. item_id i = 1) (groceryItemsTable bananas_done) = [bananas_done_row]"
    and user': "filter (\<lambda>u. usr_id u = 1) (usersTable bananas_done) \<noteq> []"
    and ticked: "is_completed bananas_done_row"
    by (simp_all add: bananas_done_def bananas_done_row_def with_bananas_def household_def
        bananas_row_def)
  have ids: "is_id 1 1" "is_id 2 2"
    by simp_all
  have first:
    "toggleItemCompletion (wednesday_noon + 2000) 1 2
       (snd (toggleItemCompletion (wednesday_noon + 1000) 1 2 with_bananas))
       = (Inr bananas_row, with_bananas)"
    using toggle_twice_restores_flag
      [where item_ref = 1 and itemId = 1 and s = with_bananas and cur = bananas_row
         and user_ref = 2 and userId = 2
         and ?now1.0 = "wednesday_noon + 1000" and ?now2.0 = "wednesday_noon + 2000"]
      rows user fresh ids
    by (simp add: Let_def del: is_id_1 is_id_numeral)
  have second:
    "fst (toggleItemCompletion (wednesday_noon + 3000) 1 1
         (snd (toggleItemCompletion (wednesday_noon + 2000) 1 1 bananas_done)))
       = Inr (bananas_done_row\<lparr>completed_by_user_id := Some 1,
                                completed_at := Some (wednesday_noon + 3000)\<rparr>)"
    using toggle_twice_restores_flag
      [where item_ref = 1 and itemId = 1 and s = bananas_done and cur = bananas_done_row
         and user_ref = 1 and userId = 1
         and ?now1.0 = "wednesday_noon + 2000" and ?now2.0 = "wednesday_noon + 3000"]
      rows' user' ticked ids
    by (simp add: Let_def del: is_id_1 is_id_numeral)
  show ?thesis
    using first second by (rule conjI)
qed

section \<open>The input schema of the procedure\<close>

lemma schema_requires_list_id:
  "p_list_id p = None \<Longrightarrow> addGroceryItemInputSchema p = Inl (ZodError ''list_id'')"
  by (simp add: addGroceryItemInputSchema_def)

lemma schema_gives_list_id:
  "addGroceryItemInputSchema p = Inr input \<Longrightarrow> in_list_id input \<noteq> None"
  by (auto simp: addGroceryItemInputSchema_def split: sum.splits)

text \<open>
  C9, on the code. The schema declares \<^verbatim>\<open>list_id: z.number()\<close>: a payload without the
  key is rejected by the validation, and the procedure returns that error without calling
  the handler. A payload with \<^verbatim>\<open>list_id: 0\<close> is accepted. The handler itself, called
  with the same fields and no \<^verbatim>\<open>list_id\<close> as its tests call it, resolves the couple and
  inserts the item.
\<close>

theorem payload_without_list_id_is_rejected:
  "p_list_id bananas_payload = None
   \<and> addGroceryItemInputSchema bananas_payload = Inl (ZodError ''list_id'')
   \<and> addGroceryItem_procedure utc wednesday_noon bananas_payload household
       = (Inl (ZodError ''list_id''), household)
   \<and> addGroceryItemInputSchema (bananas_payload\<lparr>p_list_id := Some (JNumber 0)\<rparr>)
       = Inr (bananas\<lparr>in_list_id := Some 0\<rparr>)
   \<and> addGroceryItem utc wednesday_noon bananas household = (Inr bananas_row, with_bananas)"
proof -
  have "addGroceryItemInputSchema (bananas_payload\<lparr>p_list_id := Some (JNumber 0)\<rparr>)
       = Inr (bananas\<lparr>in_list_id := Some 0\<rparr>)"
    by (simp add: addGroceryItemInputSchema_def bananas_payload_def bananas_def)
  moreover have "p_list_id bananas_payload = None"
    by (simp add: bananas_payload_def)
  ultimately show ?thesis
    by (simp add: add_bananas addGroceryItem_procedure_def schema_requires_list_id)
qed

section \<open>The failures of adding an item\<close>






text \<open>
  The guard \<^verbatim>\<open>if (input.list_id)\<close> and the reference 0. The comment above the guard
  reads \<^verbatim>\<open>If list_id is provided, validate it exists\<close>; the guard tests the number for
  truth, and 0 is not true. With the reference 0 supplied, and no list of that id, the call
  does not fail: it resolves the couple of user 1 and inserts the item.
\<close>

lemma add_list_reference_zero:
  "in_list_id (bananas\<lparr>in_list_id := Some 0\<rparr>) = Some 0
   \<and> 0 \<notin> lst_id ` set (groceryListsTable household)
   \<and> addGroceryItem utc wednesday_noon (bananas\<lparr>in_list_id := Some 0\<rparr>) household
       = (Inr bananas_row, with_bananas)
   \<and> groceryItemsTable household = []
   \<and> groceryItemsTable with_bananas = [bananas_row]"
  by (simp add: with_bananas_def bananas_row_def addGroceryItem_def household_def bananas_def
      allUserCouples_def groceryList_def insert_grocery_list_def insert_grocery_item_def
      item_values_def Let_def week_of_wednesday_noon)

section \<open>Adding an item without a list reference\<close>




lemma insert_grocery_list_tables:
  "usersTable (snd (insert_grocery_list now c w s)) = usersTable s"
  "couplesTable (snd (insert_grocery_list now c w s)) = couplesTable s"
  "categoriesTable (snd (insert_grocery_list now c w s)) = categoriesTable s"
  "groceryListsTable (snd (insert_grocery_list now c w s))
     = groceryListsTable s @ [fst (insert_grocery_list now c w s)]"
  "groceryItemsTable (snd (insert_grocery_list now c w s)) = groceryItemsTable s"
  "fst (insert_grocery_list now c w s)
     = \<lparr>lst_id = grocery_lists_id_seq s, couple_id = c, week_start = w, lst_created_at = now\<rparr>"
  by (simp_all add: insert_grocery_list_def Let_def)

lemma list_id_item_values [simp]: "new_list_id (item_values input l k u) = l"
  by (simp add: item_values_def)




section \<open>A user in several couples\<close>



section \<open>The week window\<close>

lemma week_end_steady:
  assumes steady:
    "\<forall>t. now - 7 * msPerDay \<le> t \<and> t \<le> now + 7 * msPerDay
       \<longrightarrow> utc_offset z t = c \<and> local_offset z (t + c) = c"
  defines "d \<equiv> (now + c) div msPerDay"
  defines "k \<equiv> (if (d + 4) mod 7 = 0 then 6 else (d + 4) mod 7 - 1)"
  shows "currentWeekStart z now = (d - k) * msPerDay - c"
    and "currentWeekEnd z now = (d - k + 7) * msPerDay - 1 - c"
proof -
  have D: "0 < msPerDay" by (rule msPerDay_pos)
  have k: "0 \<le> k" "k \<le> 6"
    using days_back_range [of d] by (simp_all add: k_def)
  have kD: "0 \<le> k * msPerDay" "k * msPerDay \<le> 6 * msPerDay"
    using k D by simp_all
  have before: "\<forall>t. now - 7 * msPerDay \<le> t \<and> t \<le> now
       \<longrightarrow> utc_offset z t = c \<and> local_offset z (t + c) = c"
    using steady D by simp
  define m where "m = (d - k) * msPerDay"
  have start: "getCurrentWeekStart z now = m - c"
    and local_start: "LocalTime z (getCurrentWeekStart z now) = m"
    using week_start_steady [OF before] by (simp_all add: d_def k_def m_def)
  show ws: "currentWeekStart z now = (d - k) * msPerDay - c"
    by (simp add: currentWeekStart_eq start m_def)
  have d_lo: "d * msPerDay \<le> now + c" and d_hi: "now + c < d * msPerDay + msPerDay"
  proof -
    have "now + c = d * msPerDay + (now + c) mod msPerDay"
      by (simp add: d_def)
    moreover have "0 \<le> (now + c) mod msPerDay" "(now + c) mod msPerDay < msPerDay"
      using D by simp_all
    ultimately show "d * msPerDay \<le> now + c" "now + c < d * msPerDay + msPerDay"
      by linarith+
  qed
  have m_eq: "m = d * msPerDay - k * msPerDay"
    by (simp add: m_def left_diff_distrib)
  have m_lo: "now - 7 * msPerDay \<le> m - c" and m_hi: "m - c \<le> now"
    using d_lo d_hi kD m_eq by linarith+
  have in1: "now - 7 * msPerDay \<le> m + 6 * msPerDay - c
             \<and> m + 6 * msPerDay - c \<le> now + 7 * msPerDay"
    using m_lo m_hi D by linarith
  have off1: "local_offset z (m + 6 * msPerDay) = c"
  proof -
    have "local_offset z (m + 6 * msPerDay - c + c) = c"
      using steady in1 by blast
    then show ?thesis by simp
  qed
  have off2: "utc_offset z (m + 6 * msPerDay - c) = c"
    using steady in1 by blast
  have shifted: "setDate_plus z (currentWeekStart z now) 6 = m + 6 * msPerDay - c"
    unfolding setDate_plus_def currentWeekStart_eq local_start
    by (simp add: UTC_def off1)
  have day: "LocalTime z (m + 6 * msPerDay - c) div msPerDay = d - k + 6"
  proof -
    have "LocalTime z (m + 6 * msPerDay - c)
            = m + 6 * msPerDay - c + utc_offset z (m + 6 * msPerDay - c)"
      by (simp only: LocalTime_def)
    also have "\<dots> = m + 6 * msPerDay"
      by (simp only: off2 diff_add_cancel)
    also have "\<dots> = (d - k + 6) * msPerDay"
      by (simp add: m_def algebra_simps)
    finally show ?thesis
      using D by simp
  qed
  define e where "e = (d - k + 7) * msPerDay - 1"
  have last: "(d - k + 6) * msPerDay + ((23 * 60 + 59) * 60 + 59) * 1000 + 999 = e"
    by (simp add: e_def algebra_simps) (simp add: msPerDay_def)
  have e_eq: "e = m + 7 * msPerDay - 1"
    by (simp add: e_def m_def algebra_simps)
  have in2: "now - 7 * msPerDay \<le> e - c \<and> e - c \<le> now + 7 * msPerDay"
    using m_lo m_hi D e_eq by linarith
  have off3: "local_offset z e = c"
  proof -
    have "local_offset z (e - c + c) = c"
      using steady in2 by blast
    then show ?thesis by simp
  qed
  have "currentWeekEnd z now = e - c"
    unfolding currentWeekEnd_def shifted setHours_def day last
    by (simp add: UTC_def off3)
  then show "currentWeekEnd z now = (d - k + 7) * msPerDay - 1 - c"
    by (simp add: e_def)
qed

lemma week_window:
  assumes on_utc:
    "\<forall>t. now - 7 * msPerDay \<le> t \<and> t \<le> now + 7 * msPerDay
       \<longrightarrow> utc_offset z t = 0 \<and> local_offset z t = 0"
  shows "toISODate (currentWeekStart z now) = mondayOfWeek (localDate z now)"
    and "toISODate (currentWeekEnd z now) = mondayOfWeek (localDate z now) + 6"
proof -
  have D: "0 < msPerDay" by (rule msPerDay_pos)
  have steady: "\<forall>t. now - 7 * msPerDay \<le> t \<and> t \<le> now + 7 * msPerDay
       \<longrightarrow> utc_offset z t = 0 \<and> local_offset z (t + 0) = 0"
    using on_utc by simp
  have "utc_offset z now = 0"
    using on_utc D by simp
  then have today: "localDate z now = now div msPerDay"
    by (simp add: localDate_def LocalTime_def)
  define d where "d = now div msPerDay"
  define k where "k = (if (d + 4) mod 7 = 0 then 6 else (d + 4) mod 7 - 1)"
  have monday: "mondayOfWeek (localDate z now) = d - k"
    by (simp add: mondayOfWeek_def weekday_def today d_def k_def)
  have ws: "currentWeekStart z now = (d - k) * msPerDay"
    and we: "currentWeekEnd z now = (d - k + 7) * msPerDay - 1"
    using week_end_steady [OF steady] by (simp_all add: d_def k_def)
  show "toISODate (currentWeekStart z now) = mondayOfWeek (localDate z now)"
    using D by (simp add: toISODate_def ws monday)
  have "((d - k + 7) * msPerDay - 1) div msPerDay = d - k + 6"
  proof -
    have split: "(d - k + 7) * msPerDay - 1 = (msPerDay - 1) + (d - k + 6) * msPerDay"
      by (simp add: algebra_simps)
    have "((d - k + 7) * msPerDay - 1) div msPerDay
            = ((msPerDay - 1) + (d - k + 6) * msPerDay) div msPerDay"
      by (simp only: split)
    also have "\<dots> = (d - k + 6) + (msPerDay - 1) div msPerDay"
      using D by (simp only: div_mult_self1)
    also have "(msPerDay - 1) div msPerDay = 0"
      by (simp add: msPerDay_def)
    finally show ?thesis by simp
  qed
  then show "toISODate (currentWeekEnd z now) = mondayOfWeek (localDate z now) + 6"
    by (simp add: toISODate_def we monday)
qed

lemma monday_to_sunday:
  "weekday (mondayOfWeek today) = 1" "weekday (mondayOfWeek today + 6) = 0"
  "mondayOfWeek today \<le> today" "today \<le> mondayOfWeek today + 6"
  unfolding mondayOfWeek_def weekday_def by presburger+

text \<open>
  The window of the query on a server whose offset from UTC is \<open>c\<close> throughout, less than a
  day either way. Its dates are the UTC dates of the first and the last instant of the
  server's week: east of UTC it opens on the Sunday before the Monday of the week, west of
  UTC it closes on the Monday after the Sunday of the week.
\<close>

lemma day_of_instant: "0 \<le> r \<Longrightarrow> r < msPerDay \<Longrightarrow> (q * msPerDay + r) div msPerDay = q"
proof -
  assume r: "0 \<le> r" "r < msPerDay"
  have "(q * msPerDay + r) div msPerDay = (r + q * msPerDay) div msPerDay"
    by (simp add: add.commute)
  also have "\<dots> = q + r div msPerDay"
    using msPerDay_pos by (simp only: div_mult_self1)
  also have "r div msPerDay = 0"
    using r by simp
  finally show ?thesis by simp
qed

lemma week_window_steady:
  assumes steady:
    "\<forall>t. now - 7 * msPerDay \<le> t \<and> t \<le> now + 7 * msPerDay
       \<longrightarrow> utc_offset z t = c \<and> local_offset z (t + c) = c"
    and range: "- msPerDay < c" "c < msPerDay"
  shows "toISODate (currentWeekStart z now)
           = mondayOfWeek (localDate z now) - (if 0 < c then 1 else 0)"
    and "toISODate (currentWeekEnd z now)
           = mondayOfWeek (localDate z now) + 6 + (if c < 0 then 1 else 0)"
proof -
  have D: "0 < msPerDay" by (rule msPerDay_pos)
  have "utc_offset z now = c"
    using steady D by simp
  then have today: "localDate z now = (now + c) div msPerDay"
    by (simp add: localDate_def LocalTime_def)
  define d where "d = (now + c) div msPerDay"
  define k where "k = (if (d + 4) mod 7 = 0 then 6 else (d + 4) mod 7 - 1)"
  define m where "m = d - k"
  have monday: "mondayOfWeek (localDate z now) = m"
    by (simp add: mondayOfWeek_def weekday_def today d_def k_def m_def)
  have ws: "currentWeekStart z now = m * msPerDay - c"
    and we: "currentWeekEnd z now = (m + 7) * msPerDay - 1 - c"
    using week_end_steady [OF steady] by (simp_all add: d_def k_def m_def)
  have "(m * msPerDay - c) div msPerDay = m - (if 0 < c then 1 else 0)"
  proof (cases "0 < c")
    case True
    have split: "m * msPerDay - c = (m - 1) * msPerDay + (msPerDay - c)"
      by (simp add: algebra_simps)
    have "(m * msPerDay - c) div msPerDay = ((m - 1) * msPerDay + (msPerDay - c)) div msPerDay"
      by (simp only: split)
    also have "\<dots> = m - 1"
      using True range by (intro day_of_instant) simp_all
    finally show ?thesis
      using True by simp
  next
    case False
    have split: "m * msPerDay - c = m * msPerDay + (- c)"
      by simp
    have "(m * msPerDay - c) div msPerDay = (m * msPerDay + (- c)) div msPerDay"
      by (simp only: split)
    also have "\<dots> = m"
      using False range by (intro day_of_instant) simp_all
    finally show ?thesis
      using False by simp
  qed
  then show "toISODate (currentWeekStart z now)
           = mondayOfWeek (localDate z now) - (if 0 < c then 1 else 0)"
    by (simp only: toISODate_def ws monday)
  have "((m + 7) * msPerDay - 1 - c) div msPerDay = m + 6 + (if c < 0 then 1 else 0)"
  proof (cases "c < 0")
    case True
    have split: "(m + 7) * msPerDay - 1 - c = (m + 7) * msPerDay + (- c - 1)"
      by simp
    have "((m + 7) * msPerDay - 1 - c) div msPerDay = ((m + 7) * msPerDay + (- c - 1)) div msPerDay"
      by (simp only: split)
    also have "\<dots> = m + 7"
      using True range by (intro day_of_instant) simp_all
    finally show ?thesis
      using True by simp
  next
    case False
    have split: "(m + 7) * msPerDay - 1 - c = (m + 6) * msPerDay + (msPerDay - 1 - c)"
      by (simp add: algebra_simps)
    have "((m + 7) * msPerDay - 1 - c) div msPerDay = ((m + 6) * msPerDay + (msPerDay - 1 - c)) div msPerDay"
      by (simp only: split)
    also have "\<dots> = m + 6"
      using False range by (intro day_of_instant) simp_all
    finally show ?thesis
      using False by simp
  qed
  then show "toISODate (currentWeekEnd z now)
           = mondayOfWeek (localDate z now) + 6 + (if c < 0 then 1 else 0)"
    by (simp only: toISODate_def we monday)
qed

section \<open>The items of the current week: the query and the specification\<close>

lemma withCategory_eq:
  "withCategory i c =
     \<lparr>item_id = item_id i, list_id = list_id i, category_id = category_id i, name = name i,
      quantity = quantity i, is_completed = is_completed i,
      added_by_user_id = added_by_user_id i, completed_by_user_id = completed_by_user_id i,
      created_at = created_at i, completed_at = completed_at i, category = c\<rparr>"
  by (cases i) (simp add: withCategory_def grocery_item.defs grocery_item_with_category.defs)

lemma filter_key_find:
  "distinct (map f xs) \<Longrightarrow>
   filter (\<lambda>x. f x = k) xs = (case find (\<lambda>x. f x = k) xs of None \<Rightarrow> [] | Some x \<Rightarrow> [x])"
proof (induction xs)
  case Nil
  then show ?case by simp
next
  case (Cons x xs)
  show ?case
  proof (cases "f x = k")
    case True
    with Cons.prems have "k \<notin> f ` set xs"
      by simp
    then have "filter (\<lambda>y. f y = k) xs = []"
      by (simp only: not_in_table)
    with True show ?thesis by simp
  next
    case False
    with Cons show ?thesis by simp
  qed
qed

lemma concat_map_if:
  "concat (map (\<lambda>x. if P x then F x else []) xs) = concat (map F (filter P xs))"
  by (induction xs) simp_all

lemma map_filter_concat:
  "List.map_filter f xs = concat (map (\<lambda>x. case f x of None \<Rightarrow> [] | Some y \<Rightarrow> [y]) xs)"
  by (induction xs) (simp_all add: map_filter_simps split: option.splits)

lemma join_on_key:
  "distinct (map f xs) \<Longrightarrow>
   concat (map (\<lambda>x. if k = f x then F x else []) xs)
     = (case find (\<lambda>x. f x = k) xs of None \<Rightarrow> [] | Some x \<Rightarrow> F x)"
proof -
  assume d: "distinct (map f xs)"
  have "concat (map (\<lambda>x. if k = f x then F x else []) xs)
          = concat (map (\<lambda>x. if f x = k then F x else []) xs)"
    by (simp add: eq_commute [of k])
  also have "\<dots> = concat (map F (filter (\<lambda>x. f x = k) xs))"
    by (rule concat_map_if)
  also have "\<dots> = (case find (\<lambda>x. f x = k) xs of None \<Rightarrow> [] | Some x \<Rightarrow> F x)"
    by (simp add: filter_key_find [OF d] split: option.splits)
  finally show ?thesis .
qed

lemma joined_row:
  "\<lparr>item_id = item_id i, list_id = list_id i, category_id = category_id i, name = name i,
    quantity = quantity i, is_completed = is_completed i,
    added_by_user_id = added_by_user_id i, completed_by_user_id = completed_by_user_id i,
    created_at = created_at i, completed_at = completed_at i,
    category = \<lparr>cat_id = cat_id c, cat_name = cat_name c, cat_created_at = cat_created_at c\<rparr>\<rparr>
   = withCategory i c"
  by (cases c) (simp add: withCategory_eq)

text \<open>The query, for a couple id that the store can read, with its window named.\<close>

lemma getCurrentWeekList_joined:
  "is_id couple_ref coupleId \<Longrightarrow>
   getCurrentWeekList z now couple_ref s =
     Inr (map (\<lambda>(i, l, c). withCategory i c)
            [(i, l, c).
               i \<leftarrow> groceryItemsTable s,
               l \<leftarrow> groceryListsTable s, list_id i = lst_id l,
               c \<leftarrow> categoriesTable s, category_id i = cat_id c,
               couple_id l = coupleId
                 \<and> toISODate (currentWeekStart z now) \<le> week_start l
                 \<and> week_start l \<le> toISODate (currentWeekEnd z now)])"
  unfolding getCurrentWeekList_def Let_def joined_row by (simp add: int4_of_id)

lemma current_week_list_rows:
  assumes "is_id couple_ref coupleId"
  shows "\<exists>rows. getCurrentWeekList z now couple_ref s = Inr rows
     \<and> set rows =
         {withCategory i c | i l c.
            i \<in> set (groceryItemsTable s)
            \<and> l \<in> set (groceryListsTable s) \<and> lst_id l = list_id i
            \<and> c \<in> set (categoriesTable s) \<and> cat_id c = category_id i
            \<and> couple_id l = coupleId
            \<and> toISODate (currentWeekStart z now) \<le> week_start l
            \<and> week_start l \<le> toISODate (currentWeekEnd z now)}"
proof -
  define joined where "joined =
    [(i, l, c).
       i \<leftarrow> groceryItemsTable s,
       l \<leftarrow> groceryListsTable s, list_id i = lst_id l,
       c \<leftarrow> categoriesTable s, category_id i = cat_id c,
       couple_id l = coupleId
         \<and> toISODate (currentWeekStart z now) \<le> week_start l
         \<and> week_start l \<le> toISODate (currentWeekEnd z now)]"
  have joined: "(i, l, c) \<in> set joined \<longleftrightarrow>
      i \<in> set (groceryItemsTable s)
      \<and> l \<in> set (groceryListsTable s) \<and> lst_id l = list_id i
      \<and> c \<in> set (categoriesTable s) \<and> cat_id c = category_id i
      \<and> couple_id l = coupleId
      \<and> toISODate (currentWeekStart z now) \<le> week_start l
      \<and> week_start l \<le> toISODate (currentWeekEnd z now)" for i l c
    by (auto simp: joined_def)
  have "set (map (\<lambda>(i, l, c). withCategory i c) joined)
          = {withCategory i c | i l c. (i, l, c) \<in> set joined}"
    by (auto simp: image_iff) force
  then show ?thesis
    by (simp add: getCurrentWeekList_joined [OF assms] joined_def [symmetric] joined)
qed

lemma current_week_list_keys:
  assumes id: "is_id couple_ref coupleId"
    and on_utc: "\<forall>t. now - 7 * msPerDay \<le> t \<and> t \<le> now + 7 * msPerDay
       \<longrightarrow> utc_offset z t = 0 \<and> local_offset z t = 0"
    and lists: "distinct (map lst_id (groceryListsTable s))"
    and cats: "distinct (map cat_id (categoriesTable s))"
  shows "getCurrentWeekList z now couple_ref s = Inr (currentWeekItems_spec z now coupleId s)"
  unfolding getCurrentWeekList_def currentWeekItems_spec_def Let_def week_window [OF on_utc]
    map_filter_concat map_concat map_map join_on_key [OF lists] join_on_key [OF cats]
    owningList_def categoryOf_def int4_of_id [OF id] option.case
  apply (simp only: sum.inject)
  apply (rule arg_cong [where f = concat])
  apply (rule map_cong [OF refl])
  apply (auto simp add: inCurrentWeek_def withCategory_eq split: option.splits)
  done

text \<open>
  The pantry on Wednesday 2024-01-03; the current week runs from Monday, day 19723, to
  Sunday, day 19729. The number 2147483648 passes the input schema and is no couple's id:
  the query with it does not return the empty list, it fails with the error of the store.
  And on a server eight hours behind UTC the query for couple 1 returns three items: those
  of the lists dated this Monday and this Sunday, and the item of list 4, which is dated
  the Monday after, day 19730. There the week ends on Sunday at 23:59:59.999 of the
  server's clock, which is 07:59:59.999 on Monday in UTC, and the window ends on the UTC
  date.
\<close>

theorem week_list_counterexample:
  "getCurrentWeekList utc wednesday_noon 2147483648 pantry = Inl (DataException 2147483648)
   \<and> mondayOfWeek (localDate pacific wednesday_noon) = 19723
   \<and> getCurrentWeekList pacific wednesday_noon 1 pantry
       = Inr [withCategory (apples_in 1) fruits, withCategory (apples_in 4) fruits,
              withCategory (apples_in 5) fruits]
   \<and> list_id (apples_in 4) = 4
   \<and> \<lparr>lst_id = 4, couple_id = 1, week_start = 19730, lst_created_at = 0\<rparr>
       \<in> set (groceryListsTable pantry)
   \<and> \<not> inCurrentWeek (localDate pacific wednesday_noon) 19730"
proof -
  have window: "toISODate (currentWeekStart pacific wednesday_noon) = 19723"
    "toISODate (currentWeekEnd pacific wednesday_noon) = 19730"
    by (simp_all add: currentWeekEnd_def currentWeekStart_def getDay_def setDate_plus_def
        setHours_def toISODate_def LocalTime_def UTC_def pacific_def fixed_zone_def
        msPerDay_def wednesday_noon_def Let_def)
  have monday: "mondayOfWeek (localDate pacific wednesday_noon) = 19723"
    by (simp add: mondayOfWeek_def weekday_def localDate_def LocalTime_def pacific_def
        fixed_zone_def msPerDay_def wednesday_noon_def)
  have "getCurrentWeekList utc wednesday_noon 2147483648 pantry
          = Inl (DataException 2147483648)"
    by (simp add: getCurrentWeekList_def Let_def)
  moreover have "getCurrentWeekList pacific wednesday_noon 1 pantry
       = Inr [withCategory (apples_in 1) fruits, withCategory (apples_in 4) fruits,
              withCategory (apples_in 5) fruits]"
    by (simp add: getCurrentWeekList_def Let_def window joined_row)
      (simp add: pantry_def apples_in_def fruits_def)
  moreover have "list_id (apples_in 4) = 4"
    by (simp add: apples_in_def)
  moreover have "\<lparr>lst_id = 4, couple_id = 1, week_start = 19730, lst_created_at = 0\<rparr>
       \<in> set (groceryListsTable pantry)"
    by (simp add: pantry_def)
  moreover have "\<not> inCurrentWeek (localDate pacific wednesday_noon) 19730"
    by (simp add: inCurrentWeek_def monday)
  ultimately show ?thesis
    using monday by (intro conjI)
qed

text \<open>
  C7 (amended). Let the clock of the server be on UTC from seven days before \<open>now\<close> to
  seven days after it, and let the number given as couple id be a value of the id column.
  Then \<open>getCurrentWeekList\<close> returns exactly the items whose owning list belongs to the
  couple and has its week start from the Monday to the Sunday of the current week, both
  included, each extended by the category record it refers to; an item of another couple's
  list, or of a list dated outside the week, is not returned. In a store whose list ids and
  category ids are keys, the result holds the rows that the specification describes, each
  as often as there. For a number that is no value of the id column the query fails with
  the error of the store. The first day of the window is a Monday, its last day a Sunday,
  and today lies within it.
\<close>

theorem current_week_list_is_the_couples_week:
  "(\<forall>t. now - 7 * msPerDay \<le> t \<and> t \<le> now + 7 * msPerDay
      \<longrightarrow> utc_offset z t = 0 \<and> local_offset z t = 0)
   \<longrightarrow>
   (\<forall>coupleId. is_id couple_ref coupleId \<longrightarrow>
      (\<exists>rows. getCurrentWeekList z now couple_ref s = Inr rows
         \<and> set rows =
             {withCategory i c | i l c.
                i \<in> set (groceryItemsTable s)
                \<and> l \<in> set (groceryListsTable s) \<and> lst_id l = list_id i
                \<and> c \<in> set (categoriesTable s) \<and> cat_id c = category_id i
                \<and> couple_id l = coupleId
                \<and> inCurrentWeek (localDate z now) (week_start l)}
         \<and> (distinct (map lst_id (groceryListsTable s))
              \<and> distinct (map cat_id (categoriesTable s))
            \<longrightarrow> mset rows = mset (currentWeekItems_spec z now coupleId s))))
   \<and> ((\<forall>coupleId. \<not> is_id couple_ref coupleId) \<longrightarrow>
        getCurrentWeekList z now couple_ref s = Inl (DataException couple_ref)
        \<and> kind (DataException couple_ref) = StorageError)
   \<and> weekday (mondayOfWeek (localDate z now)) = 1
   \<and> weekday (mondayOfWeek (localDate z now) + 6) = 0
   \<and> inCurrentWeek (localDate z now) (localDate z now)"
proof (intro conjI impI allI)
  fix coupleId
  assume on_utc: "\<forall>t. now - 7 * msPerDay \<le> t \<and> t \<le> now + 7 * msPerDay
      \<longrightarrow> utc_offset z t = 0 \<and> local_offset z t = 0"
    and id: "is_id couple_ref coupleId"
  obtain rows where rows: "getCurrentWeekList z now couple_ref s = Inr rows"
    and members: "set rows =
         {withCategory i c | i l c.
            i \<in> set (groceryItemsTable s)
            \<and> l \<in> set (groceryListsTable s) \<and> lst_id l = list_id i
            \<and> c \<in> set (categoriesTable s) \<and> cat_id c = category_id i
            \<and> couple_id l = coupleId
            \<and> toISODate (currentWeekStart z now) \<le> week_start l
            \<and> week_start l \<le> toISODate (currentWeekEnd z now)}"
    using current_week_list_rows [OF id] by blast
  have members': "set rows =
         {withCategory i c | i l c.
            i \<in> set (groceryItemsTable s)
            \<and> l \<in> set (groceryListsTable s) \<and> lst_id l = list_id i
            \<and> c \<in> set (categoriesTable s) \<and> cat_id c = category_id i
            \<and> couple_id l = coupleId
            \<and> inCurrentWeek (localDate z now) (week_start l)}"
    unfolding members week_window [OF on_utc] inCurrentWeek_def ..
  have "mset rows = mset (currentWeekItems_spec z now coupleId s)"
    if "distinct (map lst_id (groceryListsTable s))
        \<and> distinct (map cat_id (categoriesTable s))"
    using current_week_list_keys [OF id on_utc, of s] that rows by simp
  with rows members'
  show "\<exists>rows. getCurrentWeekList z now couple_ref s = Inr rows
         \<and> set rows =
             {withCategory i c | i l c.
                i \<in> set (groceryItemsTable s)
                \<and> l \<in> set (groceryListsTable s) \<and> lst_id l = list_id i
                \<and> c \<in> set (categoriesTable s) \<and> cat_id c = category_id i
                \<and> couple_id l = coupleId
                \<and> inCurrentWeek (localDate z now) (week_start l)}
         \<and> (distinct (map lst_id (groceryListsTable s))
              \<and> distinct (map cat_id (categoriesTable s))
            \<longrightarrow> mset rows = mset (currentWeekItems_spec z now coupleId s))"
    by blast
next
  assume "\<forall>coupleId. \<not> is_id couple_ref coupleId"
  then have "int4_of couple_ref = None"
    by (simp add: int4_of_None)
  then show "getCurrentWeekList z now couple_ref s = Inl (DataException couple_ref)"
    by (simp add: getCurrentWeekList_def Let_def)
next
  show "kind (DataException couple_ref) = StorageError"
    by simp
next
  show "weekday (mondayOfWeek (localDate z now)) = 1"
    by (rule monday_to_sunday)
next
  show "weekday (mondayOfWeek (localDate z now) + 6) = 0"
    by (rule monday_to_sunday)
next
  show "inCurrentWeek (localDate z now) (localDate z now)"
    by (simp add: inCurrentWeek_def monday_to_sunday)
qed

text \<open>
  London in the first week of 2024, when its clocks are on UTC. Of the six items, alike but
  for their lists, the query for couple 1 on Wednesday returns the two whose lists are
  couple 1's and dated Monday and Sunday of that week.
\<close>

theorem current_week_list_is_the_couples_week_witness:
  "distinct (map lst_id (groceryListsTable pantry))
   \<and> distinct (map cat_id (categoriesTable pantry))
   \<and> (\<exists>rows. getCurrentWeekList europe_london wednesday_noon 1 pantry = Inr rows
        \<and> mset rows
            = {#withCategory (apples_in 1) fruits, withCategory (apples_in 5) fruits#})"
proof -
  have keys: "distinct (map lst_id (groceryListsTable pantry))
              \<and> distinct (map cat_id (categoriesTable pantry))"
    by (simp add: pantry_def fruits_def)
  have on_utc: "\<forall>t. wednesday_noon - 7 * msPerDay \<le> t \<and> t \<le> wednesday_noon + 7 * msPerDay
      \<longrightarrow> utc_offset europe_london t = 0 \<and> local_offset europe_london t = 0"
    by (simp add: europe_london_def wednesday_noon_def msPerDay_def)
  have monday: "mondayOfWeek (localDate europe_london wednesday_noon) = 19723"
    by (simp add: mondayOfWeek_def weekday_def localDate_def LocalTime_def europe_london_def
        msPerDay_def wednesday_noon_def)
  have spec: "currentWeekItems_spec europe_london wednesday_noon 1 pantry
          = [withCategory (apples_in 1) fruits, withCategory (apples_in 5) fruits]"
    by (simp add: currentWeekItems_spec_def owningList_def categoryOf_def inCurrentWeek_def
        monday pantry_def apples_in_def fruits_def map_filter_simps)
  have id: "is_id 1 1"
    by simp
  from current_week_list_is_the_couples_week
    [where s = pantry and now = wednesday_noon and z = europe_london and couple_ref = 1,
     THEN mp, OF on_utc, THEN conjunct1, rule_format, OF id]
  obtain rows where "getCurrentWeekList europe_london wednesday_noon 1 pantry = Inr rows"
    and "mset rows = mset (currentWeekItems_spec europe_london wednesday_noon 1 pantry)"
    using keys by blast
  then have "\<exists>rows. getCurrentWeekList europe_london wednesday_noon 1 pantry = Inr rows
        \<and> mset rows
            = {#withCategory (apples_in 1) fruits, withCategory (apples_in 5) fruits#}"
    by (simp add: spec)
  with keys show ?thesis
    by blast
qed

section \<open>The operations keep the keys\<close>

text \<open>
  The three item operations keep \<open>keys_ok\<close>, whether they succeed or fail. With it, an
  item of the store is the only row with its id, which is what the theorem on two toggles
  asks for, and the list ids and category ids are keys, as the comparison of the query with
  the specification asks.
\<close>

lemma keys_ok_insert_grocery_list:
  "keys_ok s \<Longrightarrow> keys_ok (snd (insert_grocery_list now c w s))"
  by (fastforce simp: keys_ok_def insert_grocery_list_def Let_def)

lemma keys_ok_insert_grocery_item:
  "keys_ok s \<Longrightarrow> keys_ok (snd (insert_grocery_item now v s))"
  by (fastforce simp: keys_ok_def insert_grocery_item_def Let_def)

lemma keys_ok_add: "keys_ok s \<Longrightarrow> keys_ok (snd (addGroceryItem z now input s))"
  by (auto simp: addGroceryItem_def Let_def keys_ok_insert_grocery_item
      keys_ok_insert_grocery_list
      split: option.splits list.splits prod.splits
      dest!: arg_cong [where f = snd])

lemma item_id_set_completion_if:
  "item_id (if item_id i = k then set_completion c who stamp i else i) = item_id i"
  by (simp add: item_id_set_completion)

lemma keys_ok_toggle:
  "keys_ok s \<Longrightarrow> keys_ok (snd (toggleItemCompletion now itemId userId s))"
  by (auto simp: toggleItemCompletion_def Let_def keys_ok_def item_id_set_completion_if
      item_id_set_completion comp_def split: list.splits option.splits sum.splits)

lemma keys_ok_remove: "keys_ok s \<Longrightarrow> keys_ok (snd (removeGroceryItem itemId s))"
  by (auto simp: removeGroceryItem_def Let_def keys_ok_def distinct_map_filter
      split: option.splits)

lemma filter_key_of_member:
  "distinct (map f xs) \<Longrightarrow> x \<in> set xs \<Longrightarrow> filter (\<lambda>y. f y = f x) xs = [x]"
proof (induction xs)
  case Nil
  then show ?case by simp
next
  case (Cons a as)
  show ?case
  proof (cases "x = a")
    case True
    with Cons.prems have "f a \<notin> f ` set as"
      by simp
    then have "filter (\<lambda>y. f y = f a) as = []"
      by (simp only: not_in_table)
    with True show ?thesis by simp
  next
    case False
    with Cons.prems have "x \<in> set as" and "f a \<noteq> f x"
      by auto
    with Cons show ?thesis by simp
  qed
qed

lemma keys_ok_only_row:
  "keys_ok s \<Longrightarrow> cur \<in> set (groceryItemsTable s) \<Longrightarrow>
   filter (\<lambda>i. item_id i = item_id cur) (groceryItemsTable s) = [cur]"
  by (simp add: keys_ok_def filter_key_of_member)

lemma keys_ok_examples: "keys_ok household" "keys_ok new_year" "keys_ok pantry"
  "keys_ok shared_user_lists"
  by (simp_all add: keys_ok_def household_def new_year_def pantry_def fruits_def apples_in_def
      shared_user_lists_def shared_user_def)

end
